theory Spec2Isabelle
  imports Main "HOL-Library.Word"
begin

section \<open>Go values, and what the code takes from the language and its runtime\<close>

text \<open>
  The mock copies values between the caller's variables and the scripted operations with
  package \<open>reflect\<close>. A value of Go type \<open>any\<close> is modelled by \<open>val\<close>: the nil
  interface, a pointer (with its element type and the location it refers to; \<open>None\<close>
  is a nil pointer), or a non-pointer value of some dynamic type whose contents are
  opaque. A type is a pointer type, an interface type, or any other type, given by the
  way Go spells it.
\<close>

datatype ty = TNamed string | TPtr ty | TIface string

datatype ('l, 'p) val = Nil | Ptr ty "'l option" | Data string 'p

text \<open>
  The repository does not contain the rules of the language that \<open>reflect\<close> enforces,
  nor the memory the pointers refer to. They are parameters of every definition below,
  and every general theorem holds for each choice of them:
  \<^item> \<open>assignableTo s t\<close>: a value of type \<open>s\<close> is assignable to a variable of type \<open>t\<close>
    (\<open>reflect.Value.Set\<close> accepts exactly these);
  \<^item> \<open>load h l\<close>: the value of the variable at location \<open>l\<close> in the memory \<open>h\<close>;
  \<^item> \<open>store h l t v\<close>: the memory after the value \<open>v\<close> has been assigned to the
    variable at \<open>l\<close>, whose type is \<open>t\<close>.
  A location may lie inside another variable (a field, an element), and nothing is
  assumed about how locations overlap.
\<close>

record ('h, 'l, 'p) runtime =
  assignableTo :: "ty \<Rightarrow> ty \<Rightarrow> bool"
  load :: "'h \<Rightarrow> 'l \<Rightarrow> ('l, 'p) val"
  store :: "'h \<Rightarrow> 'l \<Rightarrow> ty \<Rightarrow> ('l, 'p) val \<Rightarrow> 'h"

datatype panic =
    CastPanic string
  | Exhausted nat nat
  | ArgsLength string
  | ReflectPanic
  | NilDereference
  | IndexOutOfRange

section \<open>The part of package reflect that assign uses\<close>

text \<open>
  A \<open>reflect.Value\<close>: the zero Value, or a type, the value held, and the location of the
  variable when the Value is addressable. \<open>reflect.ValueOf\<close> of a nil interface is the
  zero Value; of any other value it is a Value of the dynamic type, not addressable.
\<close>

datatype ('l, 'p) rvalue = Zero | RV ty "('l, 'p) val" "'l option"

datatype kind = Invalid | Pointer | Interface | Other

fun reflect_ValueOf :: "('l, 'p) val \<Rightarrow> ('l, 'p) rvalue" where
  "reflect_ValueOf Nil = Zero"
| "reflect_ValueOf (Ptr t a) = RV (TPtr t) (Ptr t a) None"
| "reflect_ValueOf (Data n p) = RV (TNamed n) (Data n p) None"

fun reflect_Kind :: "('l, 'p) rvalue \<Rightarrow> kind" where
  "reflect_Kind Zero = Invalid"
| "reflect_Kind (RV (TPtr t) v a) = Pointer"
| "reflect_Kind (RV (TIface n) v a) = Interface"
| "reflect_Kind (RV (TNamed n) v a) = Other"

text \<open>
  \<open>Elem\<close> of a pointer is the addressable variable it points to (the zero Value for a nil
  pointer), \<open>Elem\<close> of an interface is the value inside; on every other kind it panics.
\<close>

fun reflect_Elem ::
  "('h, 'l, 'p) runtime \<Rightarrow> 'h \<Rightarrow> ('l, 'p) rvalue \<Rightarrow> panic + ('l, 'p) rvalue" where
  "reflect_Elem R h (RV (TPtr t) (Ptr u (Some a)) x) = Inr (RV t (load R h a) (Some a))"
| "reflect_Elem R h (RV (TPtr t) (Ptr u None) x) = Inr Zero"
| "reflect_Elem R h (RV (TIface n) v x) = Inr (reflect_ValueOf v)"
| "reflect_Elem R h r = Inl ReflectPanic"

text \<open>
  \<open>Set\<close> panics unless the destination is addressable, the source is a valid Value and
  the source's type is assignable to the destination's.
\<close>

fun reflect_Set ::
  "('h, 'l, 'p) runtime \<Rightarrow> 'h \<Rightarrow> ('l, 'p) rvalue \<Rightarrow> ('l, 'p) rvalue \<Rightarrow> panic + 'h" where
  "reflect_Set R h (RV t d (Some a)) (RV s v x) =
     (if assignableTo R s t then Inr (store R h a t v) else Inl ReflectPanic)"
| "reflect_Set R h d s = Inl ReflectPanic"

text \<open>
  \<open>assign\<close> of testing.go. In \<open>dest.Elem().Set(src.Elem())\<close> the receiver is evaluated
  before the argument.
\<close>

definition assign ::
  "('h, 'l, 'p) runtime \<Rightarrow> 'h \<Rightarrow> ('l, 'p) rvalue \<Rightarrow> ('l, 'p) rvalue \<Rightarrow> panic + 'h" where
  "assign R h dest src =
     (if reflect_Kind dest = Pointer \<and> reflect_Kind src = Pointer then
        (case reflect_Elem R h dest of
           Inl p \<Rightarrow> Inl p
         | Inr d \<Rightarrow> (case reflect_Elem R h src of
                      Inl p \<Rightarrow> Inl p
                    | Inr s \<Rightarrow> reflect_Set R h d s))
      else if reflect_Kind dest = Pointer \<and> reflect_Kind src \<noteq> Pointer then
        (case reflect_Elem R h dest of
           Inl p \<Rightarrow> Inl p
         | Inr d \<Rightarrow> reflect_Set R h d src)
      else if reflect_Kind dest \<noteq> Pointer \<and> reflect_Kind src = Pointer then
        (case reflect_Elem R h src of
           Inl p \<Rightarrow> Inl p
         | Inr s \<Rightarrow> reflect_Set R h dest s)
      else if reflect_Kind dest \<noteq> Pointer \<and> reflect_Kind src \<noteq> Pointer then
        (case reflect_Elem R h src of
           Inl p \<Rightarrow> Inl p
         | Inr s \<Rightarrow> reflect_Set R h dest s)
      else Inr h)"

section \<open>The scripted operations and the mock executor\<close>

type_synonym error = "string option"

record MockQueryResult =
  LastInsertIdValue :: "64 word"
  LastInsertIdError :: error
  RowsAffectedValue :: "64 word"
  RowsAffectedError :: error

text \<open>\<open>sql.Result\<close> is an interface: \<open>None\<close> is its nil value.\<close>

type_synonym sql_Result = "MockQueryResult option"

definition LastInsertId :: "MockQueryResult \<Rightarrow> 64 word \<times> error" where
  "LastInsertId r = (LastInsertIdValue r, LastInsertIdError r)"

definition RowsAffected :: "MockQueryResult \<Rightarrow> 64 word \<times> error" where
  "RowsAffected r = (RowsAffectedValue r, RowsAffectedError r)"

record ('l, 'p) MockExecOperation =
  Model :: "('l, 'p) val"
  Args :: "('l, 'p) val list"
  Result :: sql_Result
  Error :: error

record ('l, 'p) MockScanOperation =
  Model :: "('l, 'p) val"
  Args :: "('l, 'p) val list"
  Error :: error

record MockExistsOperation =
  Exists :: bool
  Error :: error

text \<open>
  The dynamic values an entry of \<open>Ops\<close> can hold: the interface's method is unexported,
  so only the three operation types and the pointers to them implement it, and the nil
  interface is a value of the slice's element type too.
\<close>

datatype ('l, 'p) MockedQueryOperation =
    NilOperation
  | MockExec "('l, 'p) MockExecOperation"
  | MockScan "('l, 'p) MockScanOperation"
  | MockExists MockExistsOperation
  | PtrMockExec
  | PtrMockScan
  | PtrMockExists

text \<open>
  \<open>idx\<close> is unexported, starts at zero and is only ever incremented by \<open>nextOp\<close>, which
  keeps it at most \<open>len(Ops)\<close>: it is a natural number. The executor and the slices of
  the scripted operations are kept apart from the memory that the pointers handed to
  the mock refer to.
\<close>

record ('l, 'p) MockQueryExecutor =
  Ops :: "('l, 'p) MockedQueryOperation list"
  idx :: nat

text \<open>What \<open>%T\<close> prints for an entry of \<open>Ops\<close>.\<close>

fun type_name :: "('l, 'p) MockedQueryOperation \<Rightarrow> string" where
  "type_name NilOperation = ''<nil>''"
| "type_name (MockExec op) = ''bunoffe.MockExecOperation''"
| "type_name (MockScan op) = ''bunoffe.MockScanOperation''"
| "type_name (MockExists op) = ''bunoffe.MockExistsOperation''"
| "type_name PtrMockExec = ''*bunoffe.MockExecOperation''"
| "type_name PtrMockScan = ''*bunoffe.MockScanOperation''"
| "type_name PtrMockExists = ''*bunoffe.MockExistsOperation''"

definition opCastError :: "string \<Rightarrow> ('l, 'p) MockedQueryOperation \<Rightarrow> string" where
  "opCastError expected found =
     ''expected '' @ [CHR 0x27] @ expected @ [CHR 0x27] @ '' operation, but found ''
       @ [CHR 0x27] @ type_name found @ [CHR 0x27]"

text \<open>
  A panic can be recovered (the repository's test does so with \<open>assert.Panics\<close> and goes
  on using the executor), so every method returns the executor and the memory as the
  call left them, together with the panic or the returned values.
\<close>

definition nextOp ::
  "('l, 'p) MockQueryExecutor
     \<Rightarrow> (panic + ('l, 'p) MockedQueryOperation) \<times> ('l, 'p) MockQueryExecutor" where
  "nextOp ex =
     (if length (Ops ex) \<le> idx ex then (Inl (Exhausted (idx ex) (length (Ops ex))), ex)
      else (let ex' = ex\<lparr>idx := idx ex + 1\<rparr> in (Inr (Ops ex' ! (idx ex' - 1)), ex')))"

section \<open>Queries\<close>

text \<open>
  The three query interfaces of bunoffe.go. \<open>GetModel\<close> returns a \<open>bun.Model\<close>, an
  interface of the wrapped library: \<open>None\<close> is its nil value and \<open>Some v\<close> a model whose
  \<open>Value()\<close> is \<open>v\<close>. What a query's own \<open>Exec\<close>, \<open>Scan\<close> or \<open>Exists\<close> does belongs to
  the wrapped library: it is a function of the context, the arguments and a world \<open>'w\<close>
  (the database and the caller's memory).
\<close>

record ('l, 'p) Query =
  GetModel :: "('l, 'p) val option"

record ('c, 'w, 'l, 'p) ExecQuery = "('l, 'p) Query" +
  Exec :: "'c \<Rightarrow> ('l, 'p) val list \<Rightarrow> 'w \<Rightarrow> (panic + sql_Result \<times> error) \<times> 'w"

record ('c, 'w, 'l, 'p) ScanQuery = "('l, 'p) Query" +
  Scan :: "'c \<Rightarrow> ('l, 'p) val list \<Rightarrow> 'w \<Rightarrow> (panic + error) \<times> 'w"

record ('c, 'w, 'l, 'p) ExistsQuery = "('l, 'p) Query" +
  Exists :: "'c \<Rightarrow> 'w \<Rightarrow> (panic + bool \<times> error) \<times> 'w"

text \<open>
  \<open>q.GetModel().Value()\<close>: a method call on a nil interface panics.
\<close>

definition GetModel_Value :: "('l, 'p, 'z) Query_scheme option \<Rightarrow> panic + ('l, 'p) val" where
  "GetModel_Value q =
     (case q of
        None \<Rightarrow> Inl NilDereference
      | Some q' \<Rightarrow> (case GetModel q' of None \<Rightarrow> Inl NilDereference | Some v \<Rightarrow> Inr v))"

section \<open>The methods of MockQueryExecutor\<close>

text \<open>
  The loop \<open>for i, val := range op.Args { assign(reflect.ValueOf(args[i]),
  reflect.ValueOf(val)) }\<close> of \<open>Exec\<close> and \<open>Scan\<close>, started at index \<open>i\<close>. Reading
  \<open>args[i]\<close> beyond the end of \<open>args\<close> is Go's index-out-of-range panic. The
  assignments made before a panic stay in the memory.
\<close>

fun assignArgs ::
  "('h, 'l, 'p) runtime \<Rightarrow> 'h \<Rightarrow> ('l, 'p) val list \<Rightarrow> nat \<Rightarrow> ('l, 'p) val list
     \<Rightarrow> panic option \<times> 'h" where
  "assignArgs R h args i [] = (None, h)"
| "assignArgs R h args i (v # vs) =
     (if length args \<le> i then (Some IndexOutOfRange, h)
      else (case assign R h (reflect_ValueOf (args ! i)) (reflect_ValueOf v) of
              Inl p \<Rightarrow> (Some p, h)
            | Inr h' \<Rightarrow> assignArgs R h' args (Suc i) vs))"

text \<open>
  The statement \<open>if op.Model != nil { assign(reflect.ValueOf(op.Model),
  reflect.ValueOf(q.GetModel().Value())) }\<close> of \<open>Exec\<close>.
\<close>

definition Exec_model ::
  "('h, 'l, 'p) runtime \<Rightarrow> ('l, 'p) MockExecOperation \<Rightarrow> ('l, 'p, 'z) Query_scheme option
     \<Rightarrow> 'h \<Rightarrow> panic + 'h" where
  "Exec_model R op q h =
     (if MockExecOperation.Model op \<noteq> Nil then
        (case GetModel_Value q of
           Inl p \<Rightarrow> Inl p
         | Inr m \<Rightarrow> assign R h (reflect_ValueOf (MockExecOperation.Model op)) (reflect_ValueOf m))
      else Inr h)"

text \<open>The body of \<open>Exec\<close> once the type assertion has succeeded with \<open>op\<close>.\<close>

definition Exec_body ::
  "('h, 'l, 'p) runtime \<Rightarrow> ('l, 'p) MockExecOperation \<Rightarrow> ('l, 'p, 'z) Query_scheme option
     \<Rightarrow> ('l, 'p) val list \<Rightarrow> 'h \<Rightarrow> (panic + sql_Result \<times> error) \<times> 'h" where
  "Exec_body R op q args h =
     (case MockExecOperation.Error op of
        Some e \<Rightarrow> (Inr (None, Some e), h)
      | None \<Rightarrow>
          (case Exec_model R op q h of
             Inl p \<Rightarrow> (Inl p, h)
           | Inr h1 \<Rightarrow>
               (if length (MockExecOperation.Args op) > 0
                   \<and> length (MockExecOperation.Args op) \<noteq> length args
                then (Inl (ArgsLength ''operation.Args and args should have the same length''), h1)
                else (case assignArgs R h1 args 0 (MockExecOperation.Args op) of
                        (Some p, h2) \<Rightarrow> (Inl p, h2)
                      | (None, h2) \<Rightarrow> (Inr (Result op, None), h2)))))"

definition MockQueryExecutor_Exec ::
  "('h, 'l, 'p) runtime \<Rightarrow> 'c \<Rightarrow> ('c, 'w, 'l, 'p) ExecQuery option \<Rightarrow> ('l, 'p) val list
     \<Rightarrow> ('l, 'p) MockQueryExecutor \<times> 'h
     \<Rightarrow> (panic + sql_Result \<times> error) \<times> ('l, 'p) MockQueryExecutor \<times> 'h" where
  "MockQueryExecutor_Exec R ctx q args st =
     (case nextOp (fst st) of
        (Inl p, ex') \<Rightarrow> (Inl p, ex', snd st)
      | (Inr nop, ex') \<Rightarrow>
          (case nop of
             MockExec op \<Rightarrow>
               (case Exec_body R op q args (snd st) of (r, h') \<Rightarrow> (r, ex', h'))
           | _ \<Rightarrow> (Inl (CastPanic (opCastError ''MockExec'' nop)), ex', snd st)))"

text \<open>
  The statement \<open>if op.Model != nil { assign(reflect.ValueOf(q.GetModel().Value()),
  reflect.ValueOf(op.Model)) }\<close> of \<open>Scan\<close>.
\<close>

definition Scan_model ::
  "('h, 'l, 'p) runtime \<Rightarrow> ('l, 'p) MockScanOperation \<Rightarrow> ('l, 'p, 'z) Query_scheme option
     \<Rightarrow> 'h \<Rightarrow> panic + 'h" where
  "Scan_model R op q h =
     (if MockScanOperation.Model op \<noteq> Nil then
        (case GetModel_Value q of
           Inl p \<Rightarrow> Inl p
         | Inr m \<Rightarrow> assign R h (reflect_ValueOf m) (reflect_ValueOf (MockScanOperation.Model op)))
      else Inr h)"

text \<open>The body of \<open>Scan\<close> once the type assertion has succeeded with \<open>op\<close>.\<close>

definition Scan_body ::
  "('h, 'l, 'p) runtime \<Rightarrow> ('l, 'p) MockScanOperation \<Rightarrow> ('l, 'p, 'z) Query_scheme option
     \<Rightarrow> ('l, 'p) val list \<Rightarrow> 'h \<Rightarrow> (panic + error) \<times> 'h" where
  "Scan_body R op q args h =
     (case MockScanOperation.Error op of
        Some e \<Rightarrow> (Inr (Some e), h)
      | None \<Rightarrow>
          (case Scan_model R op q h of
             Inl p \<Rightarrow> (Inl p, h)
           | Inr h1 \<Rightarrow>
               (case assignArgs R h1 args 0 (MockScanOperation.Args op) of
                  (Some p, h2) \<Rightarrow> (Inl p, h2)
                | (None, h2) \<Rightarrow> (Inr None, h2))))"

definition MockQueryExecutor_Scan ::
  "('h, 'l, 'p) runtime \<Rightarrow> 'c \<Rightarrow> ('c, 'w, 'l, 'p) ScanQuery option \<Rightarrow> ('l, 'p) val list
     \<Rightarrow> ('l, 'p) MockQueryExecutor \<times> 'h
     \<Rightarrow> (panic + error) \<times> ('l, 'p) MockQueryExecutor \<times> 'h" where
  "MockQueryExecutor_Scan R ctx q args st =
     (case nextOp (fst st) of
        (Inl p, ex') \<Rightarrow> (Inl p, ex', snd st)
      | (Inr nop, ex') \<Rightarrow>
          (case nop of
             MockScan op \<Rightarrow>
               (case Scan_body R op q args (snd st) of (r, h') \<Rightarrow> (r, ex', h'))
           | _ \<Rightarrow> (Inl (CastPanic (opCastError ''MockScan'' nop)), ex', snd st)))"

definition MockQueryExecutor_Exists ::
  "'c \<Rightarrow> ('c, 'w, 'l, 'p) ExistsQuery option \<Rightarrow> ('l, 'p) MockQueryExecutor \<times> 'h
     \<Rightarrow> (panic + bool \<times> error) \<times> ('l, 'p) MockQueryExecutor \<times> 'h" where
  "MockQueryExecutor_Exists ctx q st =
     (case nextOp (fst st) of
        (Inl p, ex') \<Rightarrow> (Inl p, ex', snd st)
      | (Inr nop, ex') \<Rightarrow>
          (case nop of
             MockExists op \<Rightarrow>
               (case MockExistsOperation.Error op of
                  Some e \<Rightarrow> (Inr (False, Some e), ex', snd st)
                | None \<Rightarrow> (Inr (MockExistsOperation.Exists op, None), ex', snd st))
           | _ \<Rightarrow> (Inl (CastPanic (opCastError ''MockExists'' nop)), ex', snd st)))"

section \<open>QueryRealizer\<close>

text \<open>
  The method calls \<open>q.Exec(ctx, args...)\<close>, \<open>q.Scan(ctx, args...)\<close> and
  \<open>q.Exists(ctx)\<close> made directly on a query; on a nil interface they panic.
\<close>

definition direct_Exec ::
  "('c, 'w, 'l, 'p) ExecQuery option \<Rightarrow> 'c \<Rightarrow> ('l, 'p) val list \<Rightarrow> 'w
     \<Rightarrow> (panic + sql_Result \<times> error) \<times> 'w" where
  "direct_Exec q ctx args w =
     (case q of None \<Rightarrow> (Inl NilDereference, w) | Some q' \<Rightarrow> Exec q' ctx args w)"

definition direct_Scan ::
  "('c, 'w, 'l, 'p) ScanQuery option \<Rightarrow> 'c \<Rightarrow> ('l, 'p) val list \<Rightarrow> 'w
     \<Rightarrow> (panic + error) \<times> 'w" where
  "direct_Scan q ctx args w =
     (case q of None \<Rightarrow> (Inl NilDereference, w) | Some q' \<Rightarrow> Scan q' ctx args w)"

definition direct_Exists ::
  "('c, 'w, 'l, 'p) ExistsQuery option \<Rightarrow> 'c \<Rightarrow> 'w \<Rightarrow> (panic + bool \<times> error) \<times> 'w" where
  "direct_Exists q ctx w =
     (case q of None \<Rightarrow> (Inl NilDereference, w) | Some q' \<Rightarrow> ExistsQuery.Exists q' ctx w)"

text \<open>The three methods of \<open>QueryRealizer\<close>, as bunoffe.go writes them.\<close>

definition QueryRealizer_Exec ::
  "'c \<Rightarrow> ('c, 'w, 'l, 'p) ExecQuery option \<Rightarrow> ('l, 'p) val list \<Rightarrow> 'w
     \<Rightarrow> (panic + sql_Result \<times> error) \<times> 'w" where
  "QueryRealizer_Exec ctx q args w =
     (case q of None \<Rightarrow> (Inl NilDereference, w) | Some q' \<Rightarrow> Exec q' ctx args w)"

definition QueryRealizer_Scan ::
  "'c \<Rightarrow> ('c, 'w, 'l, 'p) ScanQuery option \<Rightarrow> ('l, 'p) val list \<Rightarrow> 'w
     \<Rightarrow> (panic + error) \<times> 'w" where
  "QueryRealizer_Scan ctx q args w =
     (case q of None \<Rightarrow> (Inl NilDereference, w) | Some q' \<Rightarrow> Scan q' ctx args w)"

definition QueryRealizer_Exists ::
  "'c \<Rightarrow> ('c, 'w, 'l, 'p) ExistsQuery option \<Rightarrow> 'w \<Rightarrow> (panic + bool \<times> error) \<times> 'w" where
  "QueryRealizer_Exists ctx q w =
     (case q of None \<Rightarrow> (Inl NilDereference, w) | Some q' \<Rightarrow> ExistsQuery.Exists q' ctx w)"

section \<open>Sequences of calls\<close>

text \<open>
  A test drives the mock with a sequence of calls, recovering from the panics as the
  repository's own test does. A call is one of the three methods with its arguments; a
  run threads the executor and the memory through the calls.
\<close>

datatype ('c, 'w, 'l, 'p) call =
    CallExec 'c "('c, 'w, 'l, 'p) ExecQuery option" "('l, 'p) val list"
  | CallScan 'c "('c, 'w, 'l, 'p) ScanQuery option" "('l, 'p) val list"
  | CallExists 'c "('c, 'w, 'l, 'p) ExistsQuery option"

datatype outcome =
    ExecReturn sql_Result error
  | ScanReturn error
  | ExistsReturn bool error
  | Panicked panic

fun step ::
  "('h, 'l, 'p) runtime \<Rightarrow> ('c, 'w, 'l, 'p) call \<Rightarrow> ('l, 'p) MockQueryExecutor \<times> 'h
     \<Rightarrow> outcome \<times> ('l, 'p) MockQueryExecutor \<times> 'h" where
  "step R (CallExec ctx q args) st =
     (case MockQueryExecutor_Exec R ctx q args st of
        (Inl p, st') \<Rightarrow> (Panicked p, st')
      | (Inr (r, e), st') \<Rightarrow> (ExecReturn r e, st'))"
| "step R (CallScan ctx q args) st =
     (case MockQueryExecutor_Scan R ctx q args st of
        (Inl p, st') \<Rightarrow> (Panicked p, st')
      | (Inr e, st') \<Rightarrow> (ScanReturn e, st'))"
| "step R (CallExists ctx q) st =
     (case MockQueryExecutor_Exists ctx q st of
        (Inl p, st') \<Rightarrow> (Panicked p, st')
      | (Inr (b, e), st') \<Rightarrow> (ExistsReturn b e, st'))"

fun run ::
  "('h, 'l, 'p) runtime \<Rightarrow> ('c, 'w, 'l, 'p) call list \<Rightarrow> ('l, 'p) MockQueryExecutor \<times> 'h
     \<Rightarrow> ('l, 'p) MockQueryExecutor \<times> 'h" where
  "run R [] st = st"
| "run R (c # cs) st = run R cs (snd (step R c st))"

section \<open>Vocabulary for the effect of an assignment and of a call\<close>

text \<open>
  \<open>target d\<close> is the variable a non-nil pointer \<open>d\<close> refers to, with its type.
  \<open>held_type s\<close> is the type of what \<open>assign\<close> reads from a source \<open>s\<close> and
  \<open>value_of R h s\<close> the value it reads: the pointee of a non-nil pointer, a non-pointer
  value itself. \<open>accepts R d s\<close> says that \<open>d\<close> is a non-nil pointer to a variable to
  whose type the type of what \<open>s\<close> holds is assignable.
\<close>

fun target :: "('l, 'p) val \<Rightarrow> (ty \<times> 'l) option" where
  "target (Ptr t (Some a)) = Some (t, a)"
| "target v = None"

fun held_type :: "('l, 'p) val \<Rightarrow> ty option" where
  "held_type (Ptr u (Some b)) = Some u"
| "held_type (Data n p) = Some (TNamed n)"
| "held_type v = None"

fun value_of :: "('h, 'l, 'p) runtime \<Rightarrow> 'h \<Rightarrow> ('l, 'p) val \<Rightarrow> ('l, 'p) val" where
  "value_of R h (Ptr u (Some b)) = load R h b"
| "value_of R h v = v"

definition accepts :: "('h, 'l, 'p) runtime \<Rightarrow> ('l, 'p) val \<Rightarrow> ('l, 'p) val \<Rightarrow> bool" where
  "accepts R d s =
     (case target d of
        None \<Rightarrow> False
      | Some (t, a) \<Rightarrow>
          (case held_type s of None \<Rightarrow> False | Some u \<Rightarrow> assignableTo R u t))"

text \<open>
  Plain assignment in order, with no reflection and no check: the memory after what each
  of \<open>vs\<close> holds has been assigned, first to last, to the variable that the pointer at
  the same position of \<open>ds\<close> refers to.
\<close>

fun assign_in_order ::
  "('h, 'l, 'p) runtime \<Rightarrow> 'h \<Rightarrow> ('l, 'p) val list \<Rightarrow> ('l, 'p) val list \<Rightarrow> 'h" where
  "assign_in_order R h (Ptr t (Some a) # ds) (v # vs) =
     assign_in_order R (store R h a t (value_of R h v)) ds vs"
| "assign_in_order R h ds vs = h"

text \<open>The \<open>Error\<close> field of an entry of \<open>Ops\<close>, whatever its operation type.\<close>

fun op_Error :: "('l, 'p) MockedQueryOperation \<Rightarrow> error" where
  "op_Error (MockExec op) = MockExecOperation.Error op"
| "op_Error (MockScan op) = MockScanOperation.Error op"
| "op_Error (MockExists op) = MockExistsOperation.Error op"
| "op_Error nop = None"

text \<open>
  What an entry of \<open>Ops\<close> scripts for a call, in the words of the specification: the
  call returns the scripted result. \<open>scripted c nop out\<close> says that \<open>out\<close> is an outcome
  the entry \<open>nop\<close> allows for the call \<open>c\<close>: for an entry of another type, the panic
  that names the expected and the found type; for an entry with an error, that error
  and no result; otherwise the scripted result, or, for an entry of \<open>Exec\<close> or \<open>Scan\<close>
  that has a \<open>Model\<close> or \<open>Args\<close> to assign, the panic of an assignment that failed (for
  \<open>Exec\<close> also the panic of the length check).
\<close>

fun failed_assignment :: "outcome \<Rightarrow> bool" where
  "failed_assignment (Panicked ReflectPanic) = True"
| "failed_assignment (Panicked NilDereference) = True"
| "failed_assignment (Panicked IndexOutOfRange) = True"
| "failed_assignment out = False"

fun scripted ::
  "('c, 'w, 'l, 'p) call \<Rightarrow> ('l, 'p) MockedQueryOperation \<Rightarrow> outcome \<Rightarrow> bool" where
  "scripted (CallExec ctx q args) (MockExec op) out =
     (case MockExecOperation.Error op of
        Some e \<Rightarrow> out = ExecReturn None (Some e)
      | None \<Rightarrow>
          if MockExecOperation.Model op = Nil \<and> MockExecOperation.Args op = []
          then out = ExecReturn (Result op) None
          else out = ExecReturn (Result op) None \<or> failed_assignment out
            \<or> out = Panicked (ArgsLength ''operation.Args and args should have the same length''))"
| "scripted (CallExec ctx q args) nop out =
     (out = Panicked (CastPanic (opCastError ''MockExec'' nop)))"
| "scripted (CallScan ctx q args) (MockScan op) out =
     (case MockScanOperation.Error op of
        Some e \<Rightarrow> out = ScanReturn (Some e)
      | None \<Rightarrow>
          if MockScanOperation.Model op = Nil \<and> MockScanOperation.Args op = []
          then out = ScanReturn None
          else out = ScanReturn None \<or> failed_assignment out)"
| "scripted (CallScan ctx q args) nop out =
     (out = Panicked (CastPanic (opCastError ''MockScan'' nop)))"
| "scripted (CallExists ctx q) (MockExists op) out =
     (case MockExistsOperation.Error op of
        Some e \<Rightarrow> out = ExistsReturn False (Some e)
      | None \<Rightarrow> out = ExistsReturn (MockExistsOperation.Exists op) None)"
| "scripted (CallExists ctx q) nop out =
     (out = Panicked (CastPanic (opCastError ''MockExists'' nop)))"

section \<open>The fixtures of the repository's test\<close>

text \<open>
  The values, variables, queries and executors that \<open>TestMocks\<close> builds. The variables
  \<open>m\<close>, \<open>n\<close>, \<open>s\<close> and \<open>f\<close> of the test live at the locations 0, 1, 2 and 3, and a
  further variable \<open>k\<close> of the model's type at location 4; the contents of a value are
  written as the text that \<open>%v\<close> prints. The context \<open>context.Background()\<close> is 0.
  These are five separate variables of the types \<open>model\<close>, \<open>string\<close> and \<open>float64\<close>:
  among these types only identical ones are assignable, and an assignment replaces the
  whole variable.
\<close>

type_synonym test_memory = "nat \<Rightarrow> (nat, string) val"

definition test_runtime :: "(test_memory, nat, string) runtime" where
  "test_runtime =
     \<lparr>assignableTo = (\<lambda>s t. s = t),
      load = (\<lambda>h l. h l),
      store = (\<lambda>h l t v. h(l := v))\<rparr>"

definition model_t :: ty where
  "model_t = TNamed ''bunoffe.model''"

definition test_heap :: test_memory where
  "test_heap =
     (\<lambda>a. Nil)
       (0 := Data ''bunoffe.model'' ''{Hello, world! 33}'',
        1 := Data ''bunoffe.model'' ''{ 0}'',
        2 := Data ''string'' [],
        3 := Data ''float64'' ''0'',
        4 := Data ''bunoffe.model'' ''{k 7}'')"

definition test_result :: MockQueryResult where
  "test_result =
     \<lparr>LastInsertIdValue = 10, LastInsertIdError = None,
      RowsAffectedValue = 11, RowsAffectedError = None\<rparr>"

definition exec_test :: "(nat, string) MockQueryExecutor" where
  "exec_test =
     \<lparr>Ops =
        [MockScan \<lparr>MockScanOperation.Model = Nil, MockScanOperation.Args = [],
                   MockScanOperation.Error = None\<rparr>,
         MockExec \<lparr>MockExecOperation.Model = Nil, MockExecOperation.Args = [],
                   Result = None, MockExecOperation.Error = Some ''an error''\<rparr>,
         MockExec \<lparr>MockExecOperation.Model = Ptr model_t (Some 0), MockExecOperation.Args = [],
                   Result = Some test_result, MockExecOperation.Error = None\<rparr>,
         MockExec \<lparr>MockExecOperation.Model = Nil,
                   MockExecOperation.Args = [Data ''string'' ''hadouken'', Data ''float64'' ''3.14''],
                   Result = None, MockExecOperation.Error = None\<rparr>],
      idx = 0\<rparr>"

definition scan_test :: "(nat, string) MockQueryExecutor" where
  "scan_test =
     \<lparr>Ops =
        [MockExec \<lparr>MockExecOperation.Model = Nil, MockExecOperation.Args = [],
                   Result = None, MockExecOperation.Error = None\<rparr>,
         MockScan \<lparr>MockScanOperation.Model = Nil, MockScanOperation.Args = [],
                   MockScanOperation.Error = Some ''an error''\<rparr>,
         MockScan \<lparr>MockScanOperation.Model = Ptr model_t (Some 0), MockScanOperation.Args = [],
                   MockScanOperation.Error = None\<rparr>,
         MockScan \<lparr>MockScanOperation.Model = Ptr model_t (Some 0),
                   MockScanOperation.Args = [Data ''string'' ''hadouken'', Data ''float64'' ''3.14''],
                   MockScanOperation.Error = None\<rparr>],
      idx = 0\<rparr>"

definition exists_test :: "(nat, string) MockQueryExecutor" where
  "exists_test =
     \<lparr>Ops =
        [MockExec \<lparr>MockExecOperation.Model = Nil, MockExecOperation.Args = [],
                   Result = None, MockExecOperation.Error = None\<rparr>,
         MockExists \<lparr>MockExistsOperation.Exists = False,
                     MockExistsOperation.Error = Some ''an error''\<rparr>,
         MockExists \<lparr>MockExistsOperation.Exists = True, MockExistsOperation.Error = None\<rparr>,
         MockExists \<lparr>MockExistsOperation.Exists = False, MockExistsOperation.Error = None\<rparr>],
      idx = 0\<rparr>"

text \<open>
  The queries \<open>db.NewInsert().Model(&n)\<close> and \<open>db.NewSelect().Model(&n)\<close>; run against
  the mocked database their own methods return without a result.
\<close>

definition insert_n :: "(nat, unit, nat, string) ExecQuery" where
  "insert_n =
     \<lparr>GetModel = Some (Ptr model_t (Some 1)),
      Exec = (\<lambda>ctx args w. (Inr (None, None), w))\<rparr>"

definition select_n :: "(nat, unit, nat, string) ScanQuery" where
  "select_n =
     \<lparr>GetModel = Some (Ptr model_t (Some 1)),
      Scan = (\<lambda>ctx args w. (Inr None, w))\<rparr>"

definition exists_n :: "(nat, unit, nat, string) ExistsQuery" where
  "exists_n =
     \<lparr>GetModel = Some (Ptr model_t (Some 1)),
      ExistsQuery.Exists = (\<lambda>ctx w. (Inr (False, None), w))\<rparr>"

text \<open>
  A query on the variable \<open>k\<close> whose own \<open>Exec\<close> fails, and the calls of the three
  subtests.
\<close>

definition insert_k :: "(nat, unit, nat, string) ExecQuery" where
  "insert_k =
     \<lparr>GetModel = Some (Ptr model_t (Some 4)),
      Exec = (\<lambda>ctx args w. (Inr (None, Some ''no such table''), w))\<rparr>"

definition exec_calls :: "(nat, unit, nat, string) call list" where
  "exec_calls =
     [CallExec 0 (Some insert_n) [],
      CallExec 0 (Some insert_n) [],
      CallExec 0 (Some insert_n) [],
      CallExec 0 (Some insert_n)
        [Ptr (TNamed ''string'') (Some 2), Ptr (TNamed ''float64'') (Some 3)]]"

definition scan_calls :: "(nat, unit, nat, string) call list" where
  "scan_calls =
     [CallScan 0 (Some select_n) [],
      CallScan 0 (Some select_n) [],
      CallScan 0 (Some select_n) [],
      CallScan 0 (Some select_n)
        [Ptr (TNamed ''string'') (Some 2), Ptr (TNamed ''float64'') (Some 3)]]"

definition exists_calls :: "(nat, unit, nat, string) call list" where
  "exists_calls =
     [CallExists 0 (Some exists_n),
      CallExists 0 (Some exists_n),
      CallExists 0 (Some exists_n),
      CallExists 0 (Some exists_n)]"

text \<open>
  Inputs outside the test: the query \<open>db.NewSelect()\<close> with no model registered, and an
  executor scripted with \<open>MockExecOperation{Model: m}\<close>, the model passed by value.
\<close>

definition select_nomodel :: "(nat, unit, nat, string) ScanQuery" where
  "select_nomodel =
     \<lparr>GetModel = None,
      Scan = (\<lambda>ctx args w. (Inr None, w))\<rparr>"

definition by_value_test :: "(nat, string) MockQueryExecutor" where
  "by_value_test =
     \<lparr>Ops =
        [MockExec \<lparr>MockExecOperation.Model = Data ''bunoffe.model'' ''{Hello, world! 33}'',
                   MockExecOperation.Args = [], Result = None,
                   MockExecOperation.Error = None\<rparr>],
      idx = 0\<rparr>"

section \<open>Facts about nextOp, assign and the argument loop\<close>

lemma nextOp_exhausted:
  "length (Ops ex) \<le> idx ex \<Longrightarrow> nextOp ex = (Inl (Exhausted (idx ex) (length (Ops ex))), ex)"
  by (simp add: nextOp_def)

lemma nextOp_next:
  "idx ex < length (Ops ex) \<Longrightarrow> nextOp ex = (Inr (Ops ex ! idx ex), ex\<lparr>idx := idx ex + 1\<rparr>)"
  by (simp add: nextOp_def Let_def)

lemma assign_panic:
  fixes d s :: "('l, 'p) rvalue"
  shows "assign R h d s = Inl p \<Longrightarrow> p = ReflectPanic"
proof -
  have S: "reflect_Set R h x y = Inl q \<Longrightarrow> q = ReflectPanic"
    for x y :: "('l, 'p) rvalue" and q
    by (cases "(R, h, x, y)" rule: reflect_Set.cases) (auto split: if_splits)
  have E: "reflect_Elem R h x = Inl q \<Longrightarrow> q = ReflectPanic" for x :: "('l, 'p) rvalue" and q
    by (cases "(R, h, x)" rule: reflect_Elem.cases) auto
  assume "assign R h d s = Inl p"
  then show ?thesis
    unfolding assign_def by (auto split: if_splits sum.splits dest: S E)
qed

text \<open>
  On the Values that \<open>reflect.ValueOf\<close> makes, \<open>assign\<close> is one store into the
  destination's variable, or a panic.
\<close>

lemma assign_ValueOf:
  "assign R h (reflect_ValueOf d) (reflect_ValueOf s) =
     (case target d of
        None \<Rightarrow> Inl ReflectPanic
      | Some (t, a) \<Rightarrow>
          if accepts R d s then Inr (store R h a t (value_of R h s)) else Inl ReflectPanic)"
  by (cases d rule: target.cases; cases s rule: held_type.cases) (auto simp: assign_def accepts_def)

lemma target_Some: "target d = Some (t, a) \<longleftrightarrow> d = Ptr t (Some a)"
  by (cases d rule: target.cases) auto

lemma accepts_target: "accepts R d s \<Longrightarrow> \<exists>t a. d = Ptr t (Some a)"
  by (auto simp: accepts_def target_Some split: option.splits)

lemma assign_accepted:
  "accepts R (Ptr t (Some a)) s \<Longrightarrow>
     assign R h (reflect_ValueOf (Ptr t (Some a))) (reflect_ValueOf s)
       = Inr (store R h a t (value_of R h s))"
  using assign_ValueOf[of R h "Ptr t (Some a)" s] by (simp del: reflect_ValueOf.simps)

lemma assign_rejected:
  "\<not> accepts R d s \<Longrightarrow> assign R h (reflect_ValueOf d) (reflect_ValueOf s) = Inl ReflectPanic"
  by (simp add: assign_ValueOf split: option.splits)

lemma assignArgs_panic:
  "fst (assignArgs R h args i vs) = Some p \<Longrightarrow> p = IndexOutOfRange \<or> p = ReflectPanic"
proof (induction vs arbitrary: i h)
  case Nil
  then show ?case by simp
next
  case (Cons v vs)
  then show ?case
    by (auto split: if_splits sum.splits dest: assign_panic)
qed

text \<open>
  When every argument accepts the value at its position, the loop is plain assignment in
  order and does not panic.
\<close>

lemma assignArgs_accepted:
  "i + length vs \<le> length args \<Longrightarrow> \<forall>j<length vs. accepts R (args ! (i + j)) (vs ! j)
     \<Longrightarrow> assignArgs R h args i vs = (None, assign_in_order R h (drop i args) vs)"
proof (induction vs arbitrary: i h)
  case Nil
  then show ?case by simp
next
  case (Cons v vs)
  from Cons.prems(1) have il: "i < length args" by simp
  from Cons.prems(2) have acc: "accepts R (args ! i) v" by fastforce
  then obtain t a where ta: "args ! i = Ptr t (Some a)" using accepts_target by blast
  define h' where "h' = store R h a t (value_of R h v)"
  have asg: "assign R h (reflect_ValueOf (args ! i)) (reflect_ValueOf v) = Inr h'"
    using acc unfolding ta h'_def by (rule assign_accepted)
  have dr: "drop i args = Ptr t (Some a) # drop (Suc i) args"
    using il ta by (metis Cons_nth_drop_Suc)
  have acc': "\<forall>j<length vs. accepts R (args ! (Suc i + j)) (vs ! j)"
  proof (intro allI impI)
    fix j assume "j < length vs"
    then have "Suc j < length (v # vs)" by simp
    with Cons.prems(2) have "accepts R (args ! (i + Suc j)) ((v # vs) ! Suc j)" by blast
    then show "accepts R (args ! (Suc i + j)) (vs ! j)" by simp
  qed
  have len': "Suc i + length vs \<le> length args" using Cons.prems(1) by simp
  have "assignArgs R h args i (v # vs) = assignArgs R h' args (Suc i) vs"
    using il asg by simp
  also have "\<dots> = (None, assign_in_order R h' (drop (Suc i) args) vs)"
    by (rule Cons.IH[OF len' acc'])
  also have "assign_in_order R h' (drop (Suc i) args) vs
               = assign_in_order R h (drop i args) (v # vs)"
    unfolding dr h'_def by simp
  finally show ?case .
qed

lemma assignArgs_overrun:
  "i \<le> length args \<Longrightarrow> length args < i + length vs
     \<Longrightarrow> fst (assignArgs R h args i vs) \<noteq> None"
proof (induction vs arbitrary: i h)
  case Nil
  then show ?case by simp
next
  case (Cons v vs)
  then show ?case
    by (auto split: sum.splits)
qed

lemma assignArgs_reject:
  "i + length vs \<le> length args \<Longrightarrow> j < length vs \<Longrightarrow> \<not> accepts R (args ! (i + j)) (vs ! j)
     \<Longrightarrow> fst (assignArgs R h args i vs) = Some ReflectPanic"
proof (induction vs arbitrary: i j h)
  case Nil
  then show ?case by simp
next
  case (Cons v vs)
  from Cons.prems(1) have il: "\<not> length args \<le> i" by simp
  show ?case
  proof (cases "assign R h (reflect_ValueOf (args ! i)) (reflect_ValueOf v)")
    case (Inl p)
    with assign_panic[OF Inl] il show ?thesis by simp
  next
    case (Inr h')
    then have acc: "accepts R (args ! i) v"
      using assign_rejected[of R "args ! i" v h] by auto
    with Cons.prems(3) obtain k where k: "j = Suc k" by (cases j) auto
    with Cons.prems have "Suc i + length vs \<le> length args" and "k < length vs"
      and "\<not> accepts R (args ! (Suc i + k)) (vs ! k)"
      by simp_all
    from Cons.IH[OF this, of h'] Inr il show ?thesis by simp
  qed
qed

section \<open>Facts about the three methods\<close>

lemma Exec_model_panic:
  "Exec_model R op q h = Inl p \<Longrightarrow> p = NilDereference \<or> p = ReflectPanic"
  by (auto simp: Exec_model_def GetModel_Value_def split: if_splits sum.splits option.splits
      dest: assign_panic)

lemma Scan_model_panic:
  "Scan_model R op q h = Inl p \<Longrightarrow> p = NilDereference \<or> p = ReflectPanic"
  by (auto simp: Scan_model_def GetModel_Value_def split: if_splits sum.splits option.splits
      dest: assign_panic)

lemma Exec_body_panic:
  assumes "fst (Exec_body R op q args h) = Inl p"
  shows "(\<forall>s. p \<noteq> CastPanic s) \<and> (\<forall>i n. p \<noteq> Exhausted i n)"
proof (cases "MockExecOperation.Error op")
  case (Some e)
  with assms show ?thesis by (simp add: Exec_body_def)
next
  case None
  show ?thesis
  proof (cases "Exec_model R op q h")
    case (Inl p')
    with None assms have "p = p'" by (simp add: Exec_body_def)
    with Exec_model_panic[OF Inl] show ?thesis by auto
  next
    case (Inr h1)
    obtain po h2 where a: "assignArgs R h1 args 0 (MockExecOperation.Args op) = (po, h2)"
      by (cases "assignArgs R h1 args 0 (MockExecOperation.Args op)")
    then have "fst (assignArgs R h1 args 0 (MockExecOperation.Args op)) = po" by simp
    from assignArgs_panic[of R h1 args 0 "MockExecOperation.Args op" p] this
    have "po = Some p \<Longrightarrow> p = IndexOutOfRange \<or> p = ReflectPanic" by simp
    with None Inr a assms show ?thesis
      by (auto simp: Exec_body_def split: if_splits option.splits)
  qed
qed

lemma Scan_body_panic:
  assumes "fst (Scan_body R op q args h) = Inl p"
  shows "(\<forall>s. p \<noteq> CastPanic s) \<and> (\<forall>i n. p \<noteq> Exhausted i n)"
proof (cases "MockScanOperation.Error op")
  case (Some e)
  with assms show ?thesis by (simp add: Scan_body_def)
next
  case None
  show ?thesis
  proof (cases "Scan_model R op q h")
    case (Inl p')
    with None assms have "p = p'" by (simp add: Scan_body_def)
    with Scan_model_panic[OF Inl] show ?thesis by auto
  next
    case (Inr h1)
    obtain po h2 where a: "assignArgs R h1 args 0 (MockScanOperation.Args op) = (po, h2)"
      by (cases "assignArgs R h1 args 0 (MockScanOperation.Args op)")
    then have "fst (assignArgs R h1 args 0 (MockScanOperation.Args op)) = po" by simp
    from assignArgs_panic[of R h1 args 0 "MockScanOperation.Args op" p] this
    have "po = Some p \<Longrightarrow> p = IndexOutOfRange \<or> p = ReflectPanic" by simp
    with None Inr a assms show ?thesis
      by (auto simp: Scan_body_def split: if_splits option.splits)
  qed
qed

lemma Exec_exhausted:
  "length (Ops ex) \<le> idx ex \<Longrightarrow>
     MockQueryExecutor_Exec R ctx q args (ex, h) = (Inl (Exhausted (idx ex) (length (Ops ex))), ex, h)"
  by (simp add: MockQueryExecutor_Exec_def nextOp_exhausted)

lemma Scan_exhausted:
  "length (Ops ex) \<le> idx ex \<Longrightarrow>
     MockQueryExecutor_Scan R ctx q args (ex, h) = (Inl (Exhausted (idx ex) (length (Ops ex))), ex, h)"
  by (simp add: MockQueryExecutor_Scan_def nextOp_exhausted)

lemma Exists_exhausted:
  "length (Ops ex) \<le> idx ex \<Longrightarrow>
     MockQueryExecutor_Exists ctx q (ex, h) = (Inl (Exhausted (idx ex) (length (Ops ex))), ex, h)"
  by (simp add: MockQueryExecutor_Exists_def nextOp_exhausted)

lemma Exec_match:
  "idx ex < length (Ops ex) \<Longrightarrow> Ops ex ! idx ex = MockExec op \<Longrightarrow>
     MockQueryExecutor_Exec R ctx q args (ex, h) =
       (fst (Exec_body R op q args h), ex\<lparr>idx := idx ex + 1\<rparr>, snd (Exec_body R op q args h))"
  by (simp add: MockQueryExecutor_Exec_def nextOp_next split: prod.splits)

lemma Exec_mismatch:
  "idx ex < length (Ops ex) \<Longrightarrow> \<forall>op. Ops ex ! idx ex \<noteq> MockExec op \<Longrightarrow>
     MockQueryExecutor_Exec R ctx q args (ex, h) =
       (Inl (CastPanic (opCastError ''MockExec'' (Ops ex ! idx ex))), ex\<lparr>idx := idx ex + 1\<rparr>, h)"
  by (cases "Ops ex ! idx ex") (simp_all add: MockQueryExecutor_Exec_def nextOp_next)

lemma Scan_match:
  "idx ex < length (Ops ex) \<Longrightarrow> Ops ex ! idx ex = MockScan op \<Longrightarrow>
     MockQueryExecutor_Scan R ctx q args (ex, h) =
       (fst (Scan_body R op q args h), ex\<lparr>idx := idx ex + 1\<rparr>, snd (Scan_body R op q args h))"
  by (simp add: MockQueryExecutor_Scan_def nextOp_next split: prod.splits)

lemma Scan_mismatch:
  "idx ex < length (Ops ex) \<Longrightarrow> \<forall>op. Ops ex ! idx ex \<noteq> MockScan op \<Longrightarrow>
     MockQueryExecutor_Scan R ctx q args (ex, h) =
       (Inl (CastPanic (opCastError ''MockScan'' (Ops ex ! idx ex))), ex\<lparr>idx := idx ex + 1\<rparr>, h)"
  by (cases "Ops ex ! idx ex") (simp_all add: MockQueryExecutor_Scan_def nextOp_next)

lemma Exists_match:
  "idx ex < length (Ops ex) \<Longrightarrow> Ops ex ! idx ex = MockExists op \<Longrightarrow>
     MockQueryExecutor_Exists ctx q (ex, h) =
       (case MockExistsOperation.Error op of
          Some e \<Rightarrow> (Inr (False, Some e), ex\<lparr>idx := idx ex + 1\<rparr>, h)
        | None \<Rightarrow> (Inr (MockExistsOperation.Exists op, None), ex\<lparr>idx := idx ex + 1\<rparr>, h))"
  by (simp add: MockQueryExecutor_Exists_def nextOp_next split: option.splits)

lemma Exists_mismatch:
  "idx ex < length (Ops ex) \<Longrightarrow> \<forall>op. Ops ex ! idx ex \<noteq> MockExists op \<Longrightarrow>
     MockQueryExecutor_Exists ctx q (ex, h) =
       (Inl (CastPanic (opCastError ''MockExists'' (Ops ex ! idx ex))), ex\<lparr>idx := idx ex + 1\<rparr>, h)"
  by (cases "Ops ex ! idx ex") (simp_all add: MockQueryExecutor_Exists_def nextOp_next)

lemma Exec_not_exhausted:
  "idx ex < length (Ops ex) \<Longrightarrow>
     fst (MockQueryExecutor_Exec R ctx q args (ex, h)) \<noteq> Inl (Exhausted i n)"
proof (cases "\<forall>op. Ops ex ! idx ex \<noteq> MockExec op")
  case True
  assume "idx ex < length (Ops ex)"
  from Exec_mismatch[OF this True, of R ctx q args h] show ?thesis by simp
next
  case False
  assume a: "idx ex < length (Ops ex)"
  from False obtain op where "Ops ex ! idx ex = MockExec op" by blast
  from Exec_match[OF a this, of R ctx q args h] Exec_body_panic[of R op q args h "Exhausted i n"]
  show ?thesis by auto
qed

lemma Scan_not_exhausted:
  "idx ex < length (Ops ex) \<Longrightarrow>
     fst (MockQueryExecutor_Scan R ctx q args (ex, h)) \<noteq> Inl (Exhausted i n)"
proof (cases "\<forall>op. Ops ex ! idx ex \<noteq> MockScan op")
  case True
  assume "idx ex < length (Ops ex)"
  from Scan_mismatch[OF this True, of R ctx q args h] show ?thesis by simp
next
  case False
  assume a: "idx ex < length (Ops ex)"
  from False obtain op where "Ops ex ! idx ex = MockScan op" by blast
  from Scan_match[OF a this, of R ctx q args h] Scan_body_panic[of R op q args h "Exhausted i n"]
  show ?thesis by auto
qed

lemma Exists_not_exhausted:
  "idx ex < length (Ops ex) \<Longrightarrow>
     fst (MockQueryExecutor_Exists ctx q (ex, h)) \<noteq> Inl (Exhausted i n)"
proof (cases "\<forall>op. Ops ex ! idx ex \<noteq> MockExists op")
  case True
  assume "idx ex < length (Ops ex)"
  from Exists_mismatch[OF this True, of ctx q h] show ?thesis by simp
next
  case False
  assume a: "idx ex < length (Ops ex)"
  from False obtain op where "Ops ex ! idx ex = MockExists op" by blast
  from Exists_match[OF a this, of ctx q h] show ?thesis by (auto split: option.splits)
qed

text \<open>Every call that finds an operation advances the cursor by one and leaves \<open>Ops\<close> alone.\<close>

lemma Exec_executor:
  "fst (snd (MockQueryExecutor_Exec R ctx q args (ex, h))) =
     (if idx ex < length (Ops ex) then ex\<lparr>idx := idx ex + 1\<rparr> else ex)"
proof (cases "idx ex < length (Ops ex)")
  case False
  then show ?thesis using Exec_exhausted[of ex R ctx q args h] by simp
next
  case True
  show ?thesis
  proof (cases "\<forall>op. Ops ex ! idx ex \<noteq> MockExec op")
    case T: True
    from Exec_mismatch[OF True T, of R ctx q args h] True show ?thesis by simp
  next
    case False
    then obtain op where "Ops ex ! idx ex = MockExec op" by blast
    from Exec_match[OF True this, of R ctx q args h] True show ?thesis by simp
  qed
qed

lemma Scan_executor:
  "fst (snd (MockQueryExecutor_Scan R ctx q args (ex, h))) =
     (if idx ex < length (Ops ex) then ex\<lparr>idx := idx ex + 1\<rparr> else ex)"
proof (cases "idx ex < length (Ops ex)")
  case False
  then show ?thesis using Scan_exhausted[of ex R ctx q args h] by simp
next
  case True
  show ?thesis
  proof (cases "\<forall>op. Ops ex ! idx ex \<noteq> MockScan op")
    case T: True
    from Scan_mismatch[OF True T, of R ctx q args h] True show ?thesis by simp
  next
    case False
    then obtain op where "Ops ex ! idx ex = MockScan op" by blast
    from Scan_match[OF True this, of R ctx q args h] True show ?thesis by simp
  qed
qed

lemma Exists_executor:
  "fst (snd (MockQueryExecutor_Exists ctx q (ex, h))) =
     (if idx ex < length (Ops ex) then ex\<lparr>idx := idx ex + 1\<rparr> else ex)"
proof (cases "idx ex < length (Ops ex)")
  case False
  then show ?thesis using Exists_exhausted[of ex ctx q h] by simp
next
  case True
  show ?thesis
  proof (cases "\<forall>op. Ops ex ! idx ex \<noteq> MockExists op")
    case T: True
    from Exists_mismatch[OF True T, of ctx q h] True show ?thesis by simp
  next
    case False
    then obtain op where "Ops ex ! idx ex = MockExists op" by blast
    from Exists_match[OF True this, of ctx q h] True show ?thesis
      by (simp split: option.splits)
  qed
qed

lemma step_executor:
  "fst (snd (step R c (ex, h))) =
     (if idx ex < length (Ops ex) then ex\<lparr>idx := idx ex + 1\<rparr> else ex)"
proof (cases c)
  case (CallExec ctx q args)
  then show ?thesis
    using Exec_executor[of R ctx q args ex h]
    by (auto split: prod.splits sum.splits)
next
  case (CallScan ctx q args)
  then show ?thesis
    using Scan_executor[of R ctx q args ex h]
    by (auto split: prod.splits sum.splits)
next
  case (CallExists ctx q)
  then show ?thesis
    using Exists_executor[of ctx q ex h]
    by (auto split: prod.splits sum.splits)
qed

lemma run_executor:
  "idx ex \<le> length (Ops ex) \<Longrightarrow>
     fst (run R cs (ex, h)) = ex\<lparr>idx := min (idx ex + length cs) (length (Ops ex))\<rparr>"
proof (induction cs arbitrary: ex h)
  case Nil
  then show ?case by simp
next
  case (Cons c cs)
  obtain ex' h' where s: "snd (step R c (ex, h)) = (ex', h')"
    by (cases "snd (step R c (ex, h))")
  then have ex': "ex' = (if idx ex < length (Ops ex) then ex\<lparr>idx := idx ex + 1\<rparr> else ex)"
    using step_executor[of R c ex h] by simp
  then have le: "idx ex' \<le> length (Ops ex')" using Cons.prems by simp
  have "fst (run R (c # cs) (ex, h)) = fst (run R cs (ex', h'))" using s by simp
  also have "\<dots> = ex'\<lparr>idx := min (idx ex' + length cs) (length (Ops ex'))\<rparr>"
    by (rule Cons.IH[OF le])
  also have "\<dots> = ex\<lparr>idx := min (idx ex + length (c # cs)) (length (Ops ex))\<rparr>"
    using ex' Cons.prems by (auto simp: min_def)
  finally show ?case .
qed

lemmas mock_defs = MockQueryExecutor_Exec_def MockQueryExecutor_Scan_def MockQueryExecutor_Exists_def
  nextOp_def Exec_body_def Scan_body_def Exec_model_def Scan_model_def GetModel_Value_def

lemma Exec_body_returns:
  "fst (Exec_body R op q args h) = Inr r \<Longrightarrow>
     r = (case MockExecOperation.Error op of
            Some e \<Rightarrow> (None, Some e)
          | None \<Rightarrow> (Result op, None))"
  by (auto simp: Exec_body_def split: option.splits sum.splits if_splits prod.splits)

lemma Scan_body_returns:
  "fst (Scan_body R op q args h) = Inr r \<Longrightarrow> r = MockScanOperation.Error op"
  by (auto simp: Scan_body_def split: option.splits sum.splits if_splits prod.splits)

lemma Exec_returns:
  assumes "fst (MockQueryExecutor_Exec R ctx q args (ex, h)) = Inr r"
  shows "idx ex < length (Ops ex) \<and>
         (\<exists>op. Ops ex ! idx ex = MockExec op \<and> fst (Exec_body R op q args h) = Inr r)"
proof -
  have i: "idx ex < length (Ops ex)"
    using assms Exec_exhausted[of ex R ctx q args h] by (cases "idx ex < length (Ops ex)") auto
  have "\<not> (\<forall>op. Ops ex ! idx ex \<noteq> MockExec op)"
  proof
    assume m: "\<forall>op. Ops ex ! idx ex \<noteq> MockExec op"
    from Exec_mismatch[OF i m, of R ctx q args h] assms show False by simp
  qed
  then obtain op where op: "Ops ex ! idx ex = MockExec op" by blast
  with assms Exec_match[OF i op, of R ctx q args h] i show ?thesis by simp
qed

lemma Scan_returns:
  assumes "fst (MockQueryExecutor_Scan R ctx q args (ex, h)) = Inr r"
  shows "idx ex < length (Ops ex) \<and>
         (\<exists>op. Ops ex ! idx ex = MockScan op \<and> fst (Scan_body R op q args h) = Inr r)"
proof -
  have i: "idx ex < length (Ops ex)"
    using assms Scan_exhausted[of ex R ctx q args h] by (cases "idx ex < length (Ops ex)") auto
  have "\<not> (\<forall>op. Ops ex ! idx ex \<noteq> MockScan op)"
  proof
    assume m: "\<forall>op. Ops ex ! idx ex \<noteq> MockScan op"
    from Scan_mismatch[OF i m, of R ctx q args h] assms show False by simp
  qed
  then obtain op where op: "Ops ex ! idx ex = MockScan op" by blast
  with assms Scan_match[OF i op, of R ctx q args h] i show ?thesis by simp
qed

lemma step_same_op:
  assumes "idx ex < length (Ops ex)" and "idx ex < length ops'"
    and "ops' ! idx ex = Ops ex ! idx ex"
  shows "fst (step R c (ex\<lparr>Ops := ops'\<rparr>, h)) = fst (step R c (ex, h))
       \<and> snd (snd (step R c (ex\<lparr>Ops := ops'\<rparr>, h))) = snd (snd (step R c (ex, h)))"
  using assms
  by (cases c)
     (auto simp: MockQueryExecutor_Exec_def MockQueryExecutor_Scan_def
        MockQueryExecutor_Exists_def nextOp_def Let_def
        split: prod.splits sum.splits MockedQueryOperation.splits option.splits)

lemma step_returns_advances:
  assumes "\<forall>p. fst (step R c (ex, h)) \<noteq> Panicked p"
  shows "fst (snd (step R c (ex, h))) = ex\<lparr>idx := idx ex + 1\<rparr>"
proof -
  have "idx ex < length (Ops ex)"
  proof (rule ccontr)
    assume "\<not> idx ex < length (Ops ex)"
    then have e: "length (Ops ex) \<le> idx ex" by simp
    have "fst (step R c (ex, h)) = Panicked (Exhausted (idx ex) (length (Ops ex)))"
    proof (cases c)
      case (CallExec ctx q args)
      then show ?thesis using Exec_exhausted[OF e, of R ctx q args h] by simp
    next
      case (CallScan ctx q args)
      then show ?thesis using Scan_exhausted[OF e, of R ctx q args h] by simp
    next
      case (CallExists ctx q)
      then show ?thesis using Exists_exhausted[OF e, of ctx q h] by simp
    qed
    with assms show False by simp
  qed
  then show ?thesis using step_executor[of R c ex h] by simp
qed

text \<open>The bodies read the query through \<open>q.GetModel().Value()\<close> only.\<close>

lemma Exec_body_query:
  "GetModel_Value q = GetModel_Value q' \<Longrightarrow> Exec_body R op q args h = Exec_body R op q' args h"
  by (simp add: Exec_body_def Exec_model_def split: option.splits)

lemma Scan_body_query:
  "GetModel_Value q = GetModel_Value q' \<Longrightarrow> Scan_body R op q args h = Scan_body R op q' args h"
  by (simp add: Scan_body_def Scan_model_def split: option.splits)

lemma step_exhausted:
  "length (Ops ex) \<le> idx ex \<Longrightarrow>
     step R c (ex, h) = (Panicked (Exhausted (idx ex) (length (Ops ex))), ex, h)"
proof (cases c)
  case (CallExec ctx q args)
  assume "length (Ops ex) \<le> idx ex"
  from Exec_exhausted[OF this, of R ctx q args h] CallExec show ?thesis by simp
next
  case (CallScan ctx q args)
  assume "length (Ops ex) \<le> idx ex"
  from Scan_exhausted[OF this, of R ctx q args h] CallScan show ?thesis by simp
next
  case (CallExists ctx q)
  assume "length (Ops ex) \<le> idx ex"
  from Exists_exhausted[OF this, of ctx q h] CallExists show ?thesis by simp
qed

section \<open>Facts about the model statements and the bodies\<close>

text \<open>When the model statement of \<open>Scan\<close> and of \<open>Exec\<close> succeeds, and what it does then.\<close>

lemma Scan_model_Inr:
  assumes "MockScanOperation.Model op \<noteq> Nil"
  shows "Scan_model R op q h = Inr h1 \<longleftrightarrow>
         (\<exists>t a. GetModel_Value q = Inr (Ptr t (Some a))
            \<and> accepts R (Ptr t (Some a)) (MockScanOperation.Model op)
            \<and> h1 = store R h a t (value_of R h (MockScanOperation.Model op)))"
proof (cases "GetModel_Value q")
  case (Inl p)
  with assms show ?thesis by (simp add: Scan_model_def)
next
  case (Inr m)
  have "assign R h (reflect_ValueOf m) (reflect_ValueOf (MockScanOperation.Model op)) = Inr h1
        \<longleftrightarrow> (\<exists>t a. m = Ptr t (Some a) \<and> accepts R m (MockScanOperation.Model op)
              \<and> h1 = store R h a t (value_of R h (MockScanOperation.Model op)))"
    unfolding assign_ValueOf
    by (cases m rule: target.cases) (auto split: option.splits)
  with assms Inr show ?thesis by (auto simp: Scan_model_def)
qed

lemma Exec_model_Inr:
  assumes "MockExecOperation.Model op \<noteq> Nil"
  shows "Exec_model R op q h = Inr h1 \<longleftrightarrow>
         (\<exists>t a m. MockExecOperation.Model op = Ptr t (Some a)
            \<and> GetModel_Value q = Inr m
            \<and> accepts R (MockExecOperation.Model op) m
            \<and> h1 = store R h a t (value_of R h m))"
proof (cases "GetModel_Value q")
  case (Inl p)
  with assms show ?thesis by (simp add: Exec_model_def)
next
  case (Inr m)
  have "assign R h (reflect_ValueOf (MockExecOperation.Model op)) (reflect_ValueOf m) = Inr h1
        \<longleftrightarrow> (\<exists>t a. MockExecOperation.Model op = Ptr t (Some a)
              \<and> accepts R (MockExecOperation.Model op) m \<and> h1 = store R h a t (value_of R h m))"
    unfolding assign_ValueOf
    by (cases "MockExecOperation.Model op" rule: target.cases) (auto split: option.splits)
  with assms Inr show ?thesis by (auto simp: Exec_model_def)
qed

lemma Scan_body_heap:
  "snd (Scan_body R op q args h) =
     (case MockScanOperation.Error op of
        Some e \<Rightarrow> h
      | None \<Rightarrow> (case Scan_model R op q h of
                   Inl p \<Rightarrow> h
                 | Inr h1 \<Rightarrow> snd (assignArgs R h1 args 0 (MockScanOperation.Args op))))"
  by (simp add: Scan_body_def split: option.splits sum.splits prod.splits)

lemma Scan_body_result:
  "fst (Scan_body R op q args h) =
     (case MockScanOperation.Error op of
        Some e \<Rightarrow> Inr (Some e)
      | None \<Rightarrow> (case Scan_model R op q h of
                   Inl p \<Rightarrow> Inl p
                 | Inr h1 \<Rightarrow> (case fst (assignArgs R h1 args 0 (MockScanOperation.Args op)) of
                               Some p \<Rightarrow> Inl p
                             | None \<Rightarrow> Inr None)))"
  by (simp add: Scan_body_def split: option.splits sum.splits prod.splits)

lemma Exec_body_heap:
  "snd (Exec_body R op q args h) =
     (case MockExecOperation.Error op of
        Some e \<Rightarrow> h
      | None \<Rightarrow> (case Exec_model R op q h of
                   Inl p \<Rightarrow> h
                 | Inr h1 \<Rightarrow>
                     if length (MockExecOperation.Args op) > 0
                        \<and> length (MockExecOperation.Args op) \<noteq> length args
                     then h1
                     else snd (assignArgs R h1 args 0 (MockExecOperation.Args op))))"
  by (simp add: Exec_body_def split: option.splits sum.splits prod.splits)

lemma Exec_body_result:
  "fst (Exec_body R op q args h) =
     (case MockExecOperation.Error op of
        Some e \<Rightarrow> Inr (None, Some e)
      | None \<Rightarrow> (case Exec_model R op q h of
                   Inl p \<Rightarrow> Inl p
                 | Inr h1 \<Rightarrow>
                     if length (MockExecOperation.Args op) > 0
                        \<and> length (MockExecOperation.Args op) \<noteq> length args
                     then Inl (ArgsLength ''operation.Args and args should have the same length'')
                     else (case fst (assignArgs R h1 args 0 (MockExecOperation.Args op)) of
                             Some p \<Rightarrow> Inl p
                           | None \<Rightarrow> Inr (Result op, None))))"
  by (simp add: Exec_body_def split: option.splits sum.splits prod.splits)

text \<open>The outcome of a call that finds an operation is one that the operation scripts.\<close>

lemma Exec_scripted:
  assumes "idx ex < length (Ops ex)"
  shows "scripted (CallExec ctx q args) (Ops ex ! idx ex)
           (fst (step R (CallExec ctx q args) (ex, h)))"
proof (cases "\<forall>op. Ops ex ! idx ex \<noteq> MockExec op")
  case True
  from Exec_mismatch[OF assms True, of R ctx q args h] True show ?thesis
    by (cases "Ops ex ! idx ex") simp_all
next
  case False
  then obtain op where op: "Ops ex ! idx ex = MockExec op" by blast
  note m = Exec_match[OF assms op, of R ctx q args h]
  show ?thesis
  proof (cases "MockExecOperation.Error op")
    case (Some e)
    with m op show ?thesis by (simp add: Exec_body_result)
  next
    case None
    show ?thesis
    proof (cases "Exec_model R op q h")
      case (Inl p)
      from Exec_model_panic[OF Inl] Inl have "MockExecOperation.Model op \<noteq> Nil"
        by (auto simp: Exec_model_def)
      with Exec_model_panic[OF Inl] Inl None m op show ?thesis
        by (auto simp: Exec_body_result)
    next
      case (Inr h1)
      show ?thesis
      proof (cases "fst (assignArgs R h1 args 0 (MockExecOperation.Args op))")
        case N: None
        with Inr None m op show ?thesis by (simp add: Exec_body_result)
      next
        case (Some p)
        then have "MockExecOperation.Args op \<noteq> []" by auto
        with assignArgs_panic[OF Some] Some Inr None m op show ?thesis
          by (auto simp: Exec_body_result)
      qed
    qed
  qed
qed

lemma Scan_scripted:
  assumes "idx ex < length (Ops ex)"
  shows "scripted (CallScan ctx q args) (Ops ex ! idx ex)
           (fst (step R (CallScan ctx q args) (ex, h)))"
proof (cases "\<forall>op. Ops ex ! idx ex \<noteq> MockScan op")
  case True
  from Scan_mismatch[OF assms True, of R ctx q args h] True show ?thesis
    by (cases "Ops ex ! idx ex") simp_all
next
  case False
  then obtain op where op: "Ops ex ! idx ex = MockScan op" by blast
  note m = Scan_match[OF assms op, of R ctx q args h]
  show ?thesis
  proof (cases "MockScanOperation.Error op")
    case (Some e)
    with m op show ?thesis by (simp add: Scan_body_result)
  next
    case None
    show ?thesis
    proof (cases "Scan_model R op q h")
      case (Inl p)
      from Scan_model_panic[OF Inl] Inl have "MockScanOperation.Model op \<noteq> Nil"
        by (auto simp: Scan_model_def)
      with Scan_model_panic[OF Inl] Inl None m op show ?thesis
        by (auto simp: Scan_body_result)
    next
      case (Inr h1)
      show ?thesis
      proof (cases "fst (assignArgs R h1 args 0 (MockScanOperation.Args op))")
        case N: None
        with Inr None m op show ?thesis by (simp add: Scan_body_result)
      next
        case (Some p)
        then have "MockScanOperation.Args op \<noteq> []" by auto
        with assignArgs_panic[OF Some] Some Inr None m op show ?thesis
          by (auto simp: Scan_body_result)
      qed
    qed
  qed
qed

lemma Exists_scripted:
  assumes "idx ex < length (Ops ex)"
  shows "scripted (CallExists ctx q) (Ops ex ! idx ex)
           (fst (step R (CallExists ctx q) (ex, h)))"
proof (cases "\<forall>op. Ops ex ! idx ex \<noteq> MockExists op")
  case True
  from Exists_mismatch[OF assms True, of ctx q h] True show ?thesis
    by (cases "Ops ex ! idx ex") simp_all
next
  case False
  then obtain op where op: "Ops ex ! idx ex = MockExists op" by blast
  from Exists_match[OF assms op, of ctx q h] op show ?thesis
    by (simp split: option.splits)
qed

lemma step_scripted:
  "idx ex < length (Ops ex) \<Longrightarrow> scripted c (Ops ex ! idx ex) (fst (step R c (ex, h)))"
  by (cases c) (simp_all only: Exec_scripted Scan_scripted Exists_scripted)

section \<open>The claims\<close>

text \<open>
  C1. Counting the calls to \<open>Exec\<close>, \<open>Scan\<close> and \<open>Exists\<close> made on a fresh executor from
  1, the Nth call, for \<open>N <= len(Ops)\<close>, finds the cursor at \<open>N - 1\<close>, leaves it at \<open>N\<close>
  and consumes \<open>Ops[N-1]\<close>: its outcome is one that \<open>Ops[N-1]\<close> scripts for the invoked
  method (the scripted error, the scripted result, the type-mismatch panic naming that
  entry, or the panic of a failed assignment of that entry's \<open>Model\<close> or \<open>Args\<close>), and its
  outcome and its effect on the memory are the same for every other content of the rest
  of \<open>Ops\<close>. A call made after \<open>len(Ops)\<close> calls consumes nothing: it panics with the
  exhaustion message and changes nothing. Every call that returns advances the cursor by
  exactly one and leaves \<open>Ops\<close> unchanged.
\<close>

theorem C1_nth_call_consumes_nth_op:
  fixes cs :: "('c, 'w, 'l, 'p) call list" and R :: "('h, 'l, 'p) runtime"
  assumes "idx ex = 0" and "1 \<le> N" and "N \<le> length cs"
    and "st = run R (take (N - 1) cs) (ex, h)"
  shows "(N \<le> length (Ops ex) \<longrightarrow>
            idx (fst st) = N - 1 \<and> Ops (fst st) = Ops ex
            \<and> idx (fst (snd (step R (cs ! (N - 1)) st))) = N
            \<and> scripted (cs ! (N - 1)) (Ops ex ! (N - 1)) (fst (step R (cs ! (N - 1)) st))
            \<and> (\<forall>ops'. N \<le> length ops' \<and> ops' ! (N - 1) = Ops ex ! (N - 1) \<longrightarrow>
                 fst (step R (cs ! (N - 1)) ((fst st)\<lparr>Ops := ops'\<rparr>, snd st))
                   = fst (step R (cs ! (N - 1)) st)
                 \<and> snd (snd (step R (cs ! (N - 1)) ((fst st)\<lparr>Ops := ops'\<rparr>, snd st)))
                   = snd (snd (step R (cs ! (N - 1)) st))))
       \<and> (length (Ops ex) < N \<longrightarrow>
            step R (cs ! (N - 1)) st
              = (Panicked (Exhausted (length (Ops ex)) (length (Ops ex))), st))
       \<and> (\<forall>(c :: ('c, 'w, 'l, 'p) call) s. (\<forall>p. fst (step R c s) \<noteq> Panicked p) \<longrightarrow>
            idx (fst (snd (step R c s))) = idx (fst s) + 1
            \<and> Ops (fst (snd (step R c s))) = Ops (fst s))"
proof (intro conjI impI)
  have l: "length (take (N - 1) cs) = N - 1" using assms(2,3) by simp
  have "fst st = ex\<lparr>idx := min (idx ex + length (take (N - 1) cs)) (length (Ops ex))\<rparr>"
    unfolding assms(4) by (rule run_executor) (simp add: assms(1))
  then have fs: "fst st = ex\<lparr>idx := min (N - 1) (length (Ops ex))\<rparr>"
    using l assms(1) by simp
  obtain ex1 h1 where st: "st = (ex1, h1)" by (cases st)
  with fs have ex1: "ex1 = ex\<lparr>idx := min (N - 1) (length (Ops ex))\<rparr>" by simp
  {
    assume n: "N \<le> length (Ops ex)"
    then have i1: "idx ex1 = N - 1" and o1: "Ops ex1 = Ops ex" using ex1 by simp_all
    then have lt: "idx ex1 < length (Ops ex1)" using assms(2) n by simp
    show "idx (fst st) = N - 1" using st i1 by simp
    show "Ops (fst st) = Ops ex" using st o1 by simp
    show "idx (fst (snd (step R (cs ! (N - 1)) st))) = N"
      using step_executor[of R "cs ! (N - 1)" ex1 h1] lt i1 assms(2) st by simp
    show "scripted (cs ! (N - 1)) (Ops ex ! (N - 1)) (fst (step R (cs ! (N - 1)) st))"
      using step_scripted[OF lt, of "cs ! (N - 1)" R h1] i1 o1 st by simp
    show "\<forall>ops'. N \<le> length ops' \<and> ops' ! (N - 1) = Ops ex ! (N - 1) \<longrightarrow>
                 fst (step R (cs ! (N - 1)) ((fst st)\<lparr>Ops := ops'\<rparr>, snd st))
                   = fst (step R (cs ! (N - 1)) st)
                 \<and> snd (snd (step R (cs ! (N - 1)) ((fst st)\<lparr>Ops := ops'\<rparr>, snd st)))
                   = snd (snd (step R (cs ! (N - 1)) st))"
    proof (intro allI impI)
      fix ops'
      assume a: "N \<le> length ops' \<and> ops' ! (N - 1) = Ops ex ! (N - 1)"
      then have "idx ex1 < length ops'" and "ops' ! idx ex1 = Ops ex1 ! idx ex1"
        using i1 o1 assms(2) by auto
      from step_same_op[OF lt this, of R "cs ! (N - 1)" h1]
      show "fst (step R (cs ! (N - 1)) ((fst st)\<lparr>Ops := ops'\<rparr>, snd st))
                   = fst (step R (cs ! (N - 1)) st)
                 \<and> snd (snd (step R (cs ! (N - 1)) ((fst st)\<lparr>Ops := ops'\<rparr>, snd st)))
                   = snd (snd (step R (cs ! (N - 1)) st))"
        using st by simp
    qed
  }
  {
    assume n: "length (Ops ex) < N"
    then have i1: "idx ex1 = length (Ops ex)" and o1: "Ops ex1 = Ops ex"
      using ex1 by (auto simp: min_def)
    then have "length (Ops ex1) \<le> idx ex1" by simp
    from step_exhausted[OF this, of R "cs ! (N - 1)" h1] i1 o1 st
    show "step R (cs ! (N - 1)) st
              = (Panicked (Exhausted (length (Ops ex)) (length (Ops ex))), st)"
      by simp
  }
  show "\<forall>(c :: ('c, 'w, 'l, 'p) call) s. (\<forall>p. fst (step R c s) \<noteq> Panicked p) \<longrightarrow>
            idx (fst (snd (step R c s))) = idx (fst s) + 1
            \<and> Ops (fst (snd (step R c s))) = Ops (fst s)"
  proof (intro allI impI)
    fix c :: "('c, 'w, 'l, 'p) call" and s :: "('l, 'p) MockQueryExecutor \<times> 'h"
    assume a: "\<forall>p. fst (step R c s) \<noteq> Panicked p"
    obtain e g where s: "s = (e, g)" by (cases s)
    with a step_returns_advances[of R c e g]
    show "idx (fst (snd (step R c s))) = idx (fst s) + 1
            \<and> Ops (fst (snd (step R c s))) = Ops (fst s)"
      by simp
  qed
qed

theorem C1_nth_call_consumes_nth_op_witness:
  "idx exec_test = 0 \<and> (1::nat) \<le> 3 \<and> 3 \<le> length exec_calls \<and> 3 \<le> length (Ops exec_test)
   \<and> idx (fst (run test_runtime (take (3 - 1) exec_calls) (exec_test, test_heap))) = 3 - 1
   \<and> idx (fst (snd (step test_runtime (exec_calls ! (3 - 1))
                      (run test_runtime (take (3 - 1) exec_calls) (exec_test, test_heap))))) = 3
   \<and> fst (step test_runtime (exec_calls ! (3 - 1))
            (run test_runtime (take (3 - 1) exec_calls) (exec_test, test_heap)))
       = ExecReturn (Some test_result) None
   \<and> fst (step test_runtime (scan_calls ! (2 - 1))
            (run test_runtime (take (2 - 1) scan_calls) (scan_test, test_heap)))
       = ScanReturn (Some ''an error'')
   \<and> fst (step test_runtime (scan_calls ! (4 - 1))
            (run test_runtime (take (4 - 1) scan_calls) (scan_test, test_heap)))
       = ScanReturn None
   \<and> fst (step test_runtime (exists_calls ! (1 - 1))
            (run test_runtime (take (1 - 1) exists_calls) (exists_test, test_heap)))
       = Panicked (CastPanic (opCastError ''MockExists'' (Ops exists_test ! (1 - 1))))
   \<and> fst (step test_runtime (exists_calls ! (3 - 1))
            (run test_runtime (take (3 - 1) exists_calls) (exists_test, test_heap)))
       = ExistsReturn True None
   \<and> length (Ops by_value_test) < 3
   \<and> step test_runtime (exec_calls ! (3 - 1))
        (run test_runtime (take (3 - 1) exec_calls) (by_value_test, test_heap))
       = (Panicked (Exhausted 1 1),
          run test_runtime (take (3 - 1) exec_calls) (by_value_test, test_heap))"
  using C1_nth_call_consumes_nth_op[where R = test_runtime and ex = exec_test and N = 3
      and cs = exec_calls and h = test_heap
      and st = "run test_runtime (take (3 - 1) exec_calls) (exec_test, test_heap)"]
    C1_nth_call_consumes_nth_op[where R = test_runtime and ex = scan_test and N = 2
      and cs = scan_calls and h = test_heap
      and st = "run test_runtime (take (2 - 1) scan_calls) (scan_test, test_heap)"]
    C1_nth_call_consumes_nth_op[where R = test_runtime and ex = scan_test and N = 4
      and cs = scan_calls and h = test_heap
      and st = "run test_runtime (take (4 - 1) scan_calls) (scan_test, test_heap)"]
    C1_nth_call_consumes_nth_op[where R = test_runtime and ex = exists_test and N = 1
      and cs = exists_calls and h = test_heap
      and st = "run test_runtime (take (1 - 1) exists_calls) (exists_test, test_heap)"]
    C1_nth_call_consumes_nth_op[where R = test_runtime and ex = exists_test and N = 3
      and cs = exists_calls and h = test_heap
      and st = "run test_runtime (take (3 - 1) exists_calls) (exists_test, test_heap)"]
    C1_nth_call_consumes_nth_op[where R = test_runtime and ex = by_value_test and N = 3
      and cs = exec_calls and h = test_heap
      and st = "run test_runtime (take (3 - 1) exec_calls) (by_value_test, test_heap)"]
  by (simp add: exec_test_def scan_test_def exists_test_def by_value_test_def
      exec_calls_def scan_calls_def exists_calls_def mock_defs insert_n_def select_n_def
      test_heap_def model_t_def test_runtime_def assign_ValueOf accepts_def
      del: reflect_ValueOf.simps)

text \<open>
  C2. When at least one operation remains, \<open>Exec\<close> panics with the type-mismatch message
  exactly when the next operation is not a \<open>MockExecOperation\<close>, \<open>Scan\<close> exactly when it
  is not a \<open>MockScanOperation\<close> and \<open>Exists\<close> exactly when it is not a
  \<open>MockExistsOperation\<close>: a mismatch always panics, a match never raises that panic.
\<close>

theorem C2_type_mismatch_panics:
  assumes "idx ex < length (Ops ex)"
  shows "((\<exists>s. fst (MockQueryExecutor_Exec R ctx qe args (ex, h)) = Inl (CastPanic s))
            \<longleftrightarrow> (\<forall>op. Ops ex ! idx ex \<noteq> MockExec op))
       \<and> ((\<exists>s. fst (MockQueryExecutor_Scan R ctx qs args (ex, h)) = Inl (CastPanic s))
            \<longleftrightarrow> (\<forall>op. Ops ex ! idx ex \<noteq> MockScan op))
       \<and> ((\<exists>s. fst (MockQueryExecutor_Exists ctx qx (ex, h)) = Inl (CastPanic s))
            \<longleftrightarrow> (\<forall>op. Ops ex ! idx ex \<noteq> MockExists op))"
proof (intro conjI)
  show "(\<exists>s. fst (MockQueryExecutor_Exec R ctx qe args (ex, h)) = Inl (CastPanic s))
            \<longleftrightarrow> (\<forall>op. Ops ex ! idx ex \<noteq> MockExec op)"
  proof (cases "\<forall>op. Ops ex ! idx ex \<noteq> MockExec op")
    case True
    then show ?thesis using Exec_mismatch[OF assms True, of R ctx qe args h] by simp
  next
    case False
    then obtain op where "Ops ex ! idx ex = MockExec op" by blast
    then show ?thesis using Exec_match[OF assms, of op R ctx qe args h] Exec_body_panic[of R op qe args h] by auto
  qed
  show "(\<exists>s. fst (MockQueryExecutor_Scan R ctx qs args (ex, h)) = Inl (CastPanic s))
            \<longleftrightarrow> (\<forall>op. Ops ex ! idx ex \<noteq> MockScan op)"
  proof (cases "\<forall>op. Ops ex ! idx ex \<noteq> MockScan op")
    case True
    then show ?thesis using Scan_mismatch[OF assms True, of R ctx qs args h] by simp
  next
    case False
    then obtain op where "Ops ex ! idx ex = MockScan op" by blast
    then show ?thesis using Scan_match[OF assms, of op R ctx qs args h] Scan_body_panic[of R op qs args h] by auto
  qed
  show "(\<exists>s. fst (MockQueryExecutor_Exists ctx qx (ex, h)) = Inl (CastPanic s))
            \<longleftrightarrow> (\<forall>op. Ops ex ! idx ex \<noteq> MockExists op)"
  proof (cases "\<forall>op. Ops ex ! idx ex \<noteq> MockExists op")
    case True
    then show ?thesis using Exists_mismatch[OF assms True, of ctx qx h] by simp
  next
    case False
    then obtain op where "Ops ex ! idx ex = MockExists op" by blast
    then show ?thesis using Exists_match[OF assms, of op ctx qx h] by (auto split: option.splits)
  qed
qed

theorem C2_type_mismatch_panics_witness:
  "idx exec_test < length (Ops exec_test)
   \<and> (\<exists>s. fst (MockQueryExecutor_Exec test_runtime 0 (Some insert_n) [] (exec_test, test_heap))
              = Inl (CastPanic s))
   \<and> \<not> (\<exists>s. fst (MockQueryExecutor_Scan test_runtime 0 (Some select_n) [] (exec_test, test_heap))
              = Inl (CastPanic s))
   \<and> (\<exists>s. fst (MockQueryExecutor_Exists 0 (Some exists_n) (exec_test, test_heap))
              = Inl (CastPanic s))"
  using C2_type_mismatch_panics[where R = test_runtime and ex = exec_test and ctx = "0" and qe = "Some insert_n"
      and args = "[]" and h = test_heap and qs = "Some select_n" and qx = "Some exists_n"]
  by (simp add: exec_test_def)

text \<open>
  C3. A call to \<open>Exec\<close>, \<open>Scan\<close> or \<open>Exists\<close> panics with the exhaustion message if and
  only if \<open>idx >= len(Ops)\<close> at the time of the call, and then the executor (its cursor
  included) and the heap are left as they were. Counting from a fresh executor, every
  earlier call that found an operation advanced the cursor, so the cursor has reached
  \<open>len(Ops)\<close> exactly when at least \<open>len(Ops)\<close> calls were made before.
\<close>

theorem C3_exhaustion_panic:
  "((\<exists>i n. fst (MockQueryExecutor_Exec R ctx qe args (ex, h)) = Inl (Exhausted i n))
      \<longleftrightarrow> length (Ops ex) \<le> idx ex)
   \<and> ((\<exists>i n. fst (MockQueryExecutor_Scan R ctx qs args (ex, h)) = Inl (Exhausted i n))
      \<longleftrightarrow> length (Ops ex) \<le> idx ex)
   \<and> ((\<exists>i n. fst (MockQueryExecutor_Exists ctx qx (ex, h)) = Inl (Exhausted i n))
      \<longleftrightarrow> length (Ops ex) \<le> idx ex)
   \<and> (length (Ops ex) \<le> idx ex \<longrightarrow>
        snd (MockQueryExecutor_Exec R ctx qe args (ex, h)) = (ex, h)
        \<and> snd (MockQueryExecutor_Scan R ctx qs args (ex, h)) = (ex, h)
        \<and> snd (MockQueryExecutor_Exists ctx qx (ex, h)) = (ex, h))
   \<and> (idx ex = 0 \<longrightarrow>
        (length (Ops ex) \<le> idx (fst (run R cs (ex, h))) \<longleftrightarrow> length (Ops ex) \<le> length cs))"
proof (intro conjI impI)
  show "(\<exists>i n. fst (MockQueryExecutor_Exec R ctx qe args (ex, h)) = Inl (Exhausted i n))
      \<longleftrightarrow> length (Ops ex) \<le> idx ex"
    using Exec_exhausted[of ex R ctx qe args h] Exec_not_exhausted[of ex R ctx qe args h]
    by (cases "length (Ops ex) \<le> idx ex") auto
  show "(\<exists>i n. fst (MockQueryExecutor_Scan R ctx qs args (ex, h)) = Inl (Exhausted i n))
      \<longleftrightarrow> length (Ops ex) \<le> idx ex"
    using Scan_exhausted[of ex R ctx qs args h] Scan_not_exhausted[of ex R ctx qs args h]
    by (cases "length (Ops ex) \<le> idx ex") auto
  show "(\<exists>i n. fst (MockQueryExecutor_Exists ctx qx (ex, h)) = Inl (Exhausted i n))
      \<longleftrightarrow> length (Ops ex) \<le> idx ex"
    using Exists_exhausted[of ex ctx qx h] Exists_not_exhausted[of ex ctx qx h]
    by (cases "length (Ops ex) \<le> idx ex") auto
next
  assume e: "length (Ops ex) \<le> idx ex"
  show "snd (MockQueryExecutor_Exec R ctx qe args (ex, h)) = (ex, h)"
    using Exec_exhausted[OF e, of R ctx qe args h] by simp
  show "snd (MockQueryExecutor_Scan R ctx qs args (ex, h)) = (ex, h)"
    using Scan_exhausted[OF e, of R ctx qs args h] by simp
  show "snd (MockQueryExecutor_Exists ctx qx (ex, h)) = (ex, h)"
    using Exists_exhausted[OF e, of ctx qx h] by simp
next
  assume z: "idx ex = 0"
  then have "fst (run R cs (ex, h)) = ex\<lparr>idx := min (idx ex + length cs) (length (Ops ex))\<rparr>"
    by (intro run_executor) simp
  with z show "length (Ops ex) \<le> idx (fst (run R cs (ex, h))) \<longleftrightarrow> length (Ops ex) \<le> length cs"
    by simp
qed

theorem C3_exhaustion_panic_witness:
  "length (Ops (exec_test\<lparr>idx := 4\<rparr>)) \<le> idx (exec_test\<lparr>idx := 4\<rparr>)
   \<and> fst (MockQueryExecutor_Exec test_runtime 0 (Some insert_n) [] (exec_test\<lparr>idx := 4\<rparr>, test_heap))
        = Inl (Exhausted 4 4)
   \<and> snd (MockQueryExecutor_Exec test_runtime 0 (Some insert_n) [] (exec_test\<lparr>idx := 4\<rparr>, test_heap))
        = (exec_test\<lparr>idx := 4\<rparr>, test_heap)
   \<and> fst (MockQueryExecutor_Scan test_runtime 0 (Some select_n) [] (exec_test\<lparr>idx := 4\<rparr>, test_heap))
        = Inl (Exhausted 4 4)
   \<and> fst (MockQueryExecutor_Exists 0 (Some exists_n) (exec_test\<lparr>idx := 4\<rparr>, test_heap))
        = Inl (Exhausted 4 4)
   \<and> idx exists_test = 0
   \<and> length (Ops exists_test)
        \<le> idx (fst (run test_runtime [CallExists 0 (Some exists_n), CallExists 0 (Some exists_n),
                          CallExists 0 (Some exists_n), CallExists 0 (Some exists_n)]
                         (exists_test, test_heap)))"
  using C3_exhaustion_panic[where R = test_runtime and ex = "exec_test\<lparr>idx := 4\<rparr>" and ctx = "0"
      and qe = "Some insert_n" and args = "[]" and h = test_heap and qs = "Some select_n"
      and qx = "Some exists_n" and cs = "[]"]
    C3_exhaustion_panic[where R = test_runtime and ex = exists_test and ctx = "0"
      and qe = "Some insert_n" and args = "[]" and h = test_heap and qs = "Some select_n"
      and qx = "Some exists_n"
      and cs = "[CallExists 0 (Some exists_n), CallExists 0 (Some exists_n),
                 CallExists 0 (Some exists_n), CallExists 0 (Some exists_n)]"]
  by (simp add: exec_test_def exists_test_def mock_defs)

text \<open>
  C4. A scripted operation of the invoked method's type whose \<open>Error\<close> is not nil makes
  the mock return exactly that error: \<open>Exec\<close> returns \<open>(nil, op.Error)\<close>, \<open>Scan\<close>
  returns \<open>op.Error\<close> and \<open>Exists\<close> returns \<open>(false, op.Error)\<close>.
\<close>

theorem C4_scripted_error_returned:
  assumes "idx ex < length (Ops ex)"
  shows "(\<forall>op e. Ops ex ! idx ex = MockExec op \<and> MockExecOperation.Error op = Some e \<longrightarrow>
            fst (MockQueryExecutor_Exec R ctx qe args (ex, h)) = Inr (None, Some e))
       \<and> (\<forall>op e. Ops ex ! idx ex = MockScan op \<and> MockScanOperation.Error op = Some e \<longrightarrow>
            fst (MockQueryExecutor_Scan R ctx qs args (ex, h)) = Inr (Some e))
       \<and> (\<forall>op e. Ops ex ! idx ex = MockExists op \<and> MockExistsOperation.Error op = Some e \<longrightarrow>
            fst (MockQueryExecutor_Exists ctx qx (ex, h)) = Inr (False, Some e))"
proof (intro conjI allI impI)
  fix op e
  assume "Ops ex ! idx ex = MockExec op \<and> MockExecOperation.Error op = Some e"
  then show "fst (MockQueryExecutor_Exec R ctx qe args (ex, h)) = Inr (None, Some e)"
    using Exec_match[OF assms, of op R ctx qe args h] by (simp add: Exec_body_def)
next
  fix op e
  assume "Ops ex ! idx ex = MockScan op \<and> MockScanOperation.Error op = Some e"
  then show "fst (MockQueryExecutor_Scan R ctx qs args (ex, h)) = Inr (Some e)"
    using Scan_match[OF assms, of op R ctx qs args h] by (simp add: Scan_body_def)
next
  fix op e
  assume "Ops ex ! idx ex = MockExists op \<and> MockExistsOperation.Error op = Some e"
  then show "fst (MockQueryExecutor_Exists ctx qx (ex, h)) = Inr (False, Some e)"
    using Exists_match[OF assms, of op ctx qx h] by simp
qed

theorem C4_scripted_error_returned_witness:
  "idx (exec_test\<lparr>idx := 1\<rparr>) < length (Ops (exec_test\<lparr>idx := 1\<rparr>))
   \<and> fst (MockQueryExecutor_Exec test_runtime 0 (Some insert_n) [] (exec_test\<lparr>idx := 1\<rparr>, test_heap))
        = Inr (None, Some ''an error'')
   \<and> idx (scan_test\<lparr>idx := 1\<rparr>) < length (Ops (scan_test\<lparr>idx := 1\<rparr>))
   \<and> fst (MockQueryExecutor_Scan test_runtime 0 (Some select_n) [] (scan_test\<lparr>idx := 1\<rparr>, test_heap))
        = Inr (Some ''an error'')
   \<and> idx (exists_test\<lparr>idx := 1\<rparr>) < length (Ops (exists_test\<lparr>idx := 1\<rparr>))
   \<and> fst (MockQueryExecutor_Exists 0 (Some exists_n) (exists_test\<lparr>idx := 1\<rparr>, test_heap))
        = Inr (False, Some ''an error'')"
  using C4_scripted_error_returned[where R = test_runtime and ex = "exec_test\<lparr>idx := 1\<rparr>" and ctx = "0"
      and qe = "Some insert_n" and args = "[]" and h = test_heap]
    C4_scripted_error_returned[where R = test_runtime and ex = "scan_test\<lparr>idx := 1\<rparr>" and ctx = "0"
      and qs = "Some select_n" and args = "[]" and h = test_heap]
    C4_scripted_error_returned[where R = test_runtime and ex = "exists_test\<lparr>idx := 1\<rparr>" and ctx = "0"
      and qx = "Some exists_n" and h = test_heap]
  by (simp add: exec_test_def scan_test_def exists_test_def)

text \<open>
  C5. \<open>QueryRealizer.Exec(ctx, q, args...)\<close> does exactly what \<open>q.Exec(ctx, args...)\<close>
  does, \<open>QueryRealizer.Scan\<close> what \<open>q.Scan(ctx, args...)\<close> does and
  \<open>QueryRealizer.Exists\<close> what \<open>q.Exists(ctx)\<close> does, for every context, query,
  argument list and world: the same returned values (or panic) and the same effect.
\<close>

theorem C5_realizer_passes_through:
  "QueryRealizer_Exec ctx qe args w = direct_Exec qe ctx args w
   \<and> QueryRealizer_Scan ctx qs args w = direct_Scan qs ctx args w
   \<and> QueryRealizer_Exists ctx qx w = direct_Exists qx ctx w"
  by (simp add: QueryRealizer_Exec_def QueryRealizer_Scan_def QueryRealizer_Exists_def
      direct_Exec_def direct_Scan_def direct_Exists_def)

text \<open>
  C6, as the code has it. When \<open>Scan\<close> consumes a \<open>MockScanOperation\<close> whose \<open>Error\<close> is
  nil and whose \<open>Model\<close> is not nil, and the query's model value is a non-nil pointer to
  a variable to whose type what \<open>op.Model\<close> holds is assignable (\<open>op.Model\<close> itself, or
  the pointee of a non-nil pointer), that value is assigned to the query's model
  variable, and then \<open>op.Args\<close> are assigned into \<open>args\<close>; the call returns nil exactly
  when these assignments succeed too, as they do when \<open>op.Args\<close> is empty. When the
  query's model value is not such a pointer, nothing is assigned and the call panics. The
  call never returns an error.
\<close>

theorem C6_scan_assigns_model:
  assumes "idx ex < length (Ops ex)" and "Ops ex ! idx ex = MockScan op"
    and "MockScanOperation.Error op = None" and "MockScanOperation.Model op \<noteq> Nil"
  shows "(fst (MockQueryExecutor_Scan R ctx q args (ex, h)) = Inr None \<longleftrightarrow>
            (\<exists>t a. GetModel_Value q = Inr (Ptr t (Some a))
               \<and> accepts R (Ptr t (Some a)) (MockScanOperation.Model op)
               \<and> fst (assignArgs R (store R h a t (value_of R h (MockScanOperation.Model op)))
                        args 0 (MockScanOperation.Args op)) = None))
       \<and> (\<forall>e. fst (MockQueryExecutor_Scan R ctx q args (ex, h)) \<noteq> Inr (Some e))
       \<and> (\<forall>t a. GetModel_Value q = Inr (Ptr t (Some a))
               \<and> accepts R (Ptr t (Some a)) (MockScanOperation.Model op) \<longrightarrow>
             snd (snd (MockQueryExecutor_Scan R ctx q args (ex, h)))
               = snd (assignArgs R (store R h a t (value_of R h (MockScanOperation.Model op)))
                        args 0 (MockScanOperation.Args op))
             \<and> (MockScanOperation.Args op = [] \<longrightarrow>
                  MockQueryExecutor_Scan R ctx q args (ex, h)
                    = (Inr None, ex\<lparr>idx := idx ex + 1\<rparr>,
                       store R h a t (value_of R h (MockScanOperation.Model op)))))
       \<and> (\<not> (\<exists>t a. GetModel_Value q = Inr (Ptr t (Some a))
               \<and> accepts R (Ptr t (Some a)) (MockScanOperation.Model op)) \<longrightarrow>
             (fst (MockQueryExecutor_Scan R ctx q args (ex, h)) = Inl ReflectPanic
                \<or> fst (MockQueryExecutor_Scan R ctx q args (ex, h)) = Inl NilDereference)
             \<and> snd (snd (MockQueryExecutor_Scan R ctx q args (ex, h))) = h)"
proof -
  let ?M = "MockScanOperation.Model op"
  let ?A = "MockScanOperation.Args op"
  let ?r = "MockQueryExecutor_Scan R ctx q args (ex, h)"
  let ?ok = "\<lambda>t a. GetModel_Value q = Inr (Ptr t (Some a)) \<and> accepts R (Ptr t (Some a)) ?M"
  note m = Scan_match[OF assms(1,2), of R ctx q args h]
  have res: "fst ?r =
     (case Scan_model R op q h of
        Inl p \<Rightarrow> Inl p
      | Inr h1 \<Rightarrow> (case fst (assignArgs R h1 args 0 ?A) of
                    Some p \<Rightarrow> Inl p | None \<Rightarrow> Inr None))"
    using m assms(3) by (simp add: Scan_body_result)
  have heap: "snd (snd ?r) =
     (case Scan_model R op q h of
        Inl p \<Rightarrow> h
      | Inr h1 \<Rightarrow> snd (assignArgs R h1 args 0 ?A))"
    using m assms(3) by (simp add: Scan_body_heap)
  have ex': "fst (snd ?r) = ex\<lparr>idx := idx ex + 1\<rparr>" using m by simp
  note mi = Scan_model_Inr[OF assms(4), of R q h]
  have ok: "Scan_model R op q h = Inr (store R h a t (value_of R h ?M))" if "?ok t a" for t a
    using that mi[of "store R h a t (value_of R h ?M)"] by blast
  have a: "fst ?r = Inr None \<longleftrightarrow>
            (\<exists>t a. ?ok t a \<and> fst (assignArgs R (store R h a t (value_of R h ?M)) args 0 ?A) = None)"
  proof
    assume r: "fst ?r = Inr None"
    then obtain h1 where h1: "Scan_model R op q h = Inr h1"
      and f: "fst (assignArgs R h1 args 0 ?A) = None"
      unfolding res by (auto split: sum.splits option.splits)
    from h1 mi[of h1] f
    show "\<exists>t a. ?ok t a \<and> fst (assignArgs R (store R h a t (value_of R h ?M)) args 0 ?A) = None"
      by auto
  next
    assume "\<exists>t a. ?ok t a \<and> fst (assignArgs R (store R h a t (value_of R h ?M)) args 0 ?A) = None"
    then obtain t a where g: "?ok t a"
      and f: "fst (assignArgs R (store R h a t (value_of R h ?M)) args 0 ?A) = None"
      by blast
    from ok[OF g] f show "fst ?r = Inr None" unfolding res by simp
  qed
  have b: "fst ?r \<noteq> Inr (Some e)" for e
    unfolding res by (simp split: sum.splits option.splits)
  have c: "snd (snd ?r) = snd (assignArgs R (store R h a t (value_of R h ?M)) args 0 ?A)
           \<and> (?A = [] \<longrightarrow> ?r = (Inr None, ex\<lparr>idx := idx ex + 1\<rparr>,
                                store R h a t (value_of R h ?M)))"
    if g: "?ok t a" for t a
  proof (intro conjI impI)
    show hp: "snd (snd ?r) = snd (assignArgs R (store R h a t (value_of R h ?M)) args 0 ?A)"
      unfolding heap ok[OF g] by simp
    assume e: "?A = []"
    have "fst ?r = Inr None" unfolding res ok[OF g] e by simp
    moreover have "snd (snd ?r) = store R h a t (value_of R h ?M)" using hp e by simp
    ultimately show "?r = (Inr None, ex\<lparr>idx := idx ex + 1\<rparr>, store R h a t (value_of R h ?M))"
      using ex' by (metis prod.collapse)
  qed
  have d: "(fst ?r = Inl ReflectPanic \<or> fst ?r = Inl NilDereference) \<and> snd (snd ?r) = h"
    if n: "\<not> (\<exists>t a. ?ok t a)"
  proof -
    from n mi have "\<And>h1. Scan_model R op q h \<noteq> Inr h1" by blast
    then obtain p where p: "Scan_model R op q h = Inl p"
      by (cases "Scan_model R op q h") auto
    from Scan_model_panic[OF p] show ?thesis unfolding res heap p by auto
  qed
  from a b c d show ?thesis by blast
qed

theorem C6_scan_assigns_model_witness:
  "idx (scan_test\<lparr>idx := 2\<rparr>) < length (Ops (scan_test\<lparr>idx := 2\<rparr>))
   \<and> Ops (scan_test\<lparr>idx := 2\<rparr>) ! idx (scan_test\<lparr>idx := 2\<rparr>)
       = MockScan \<lparr>MockScanOperation.Model = Ptr model_t (Some 0), MockScanOperation.Args = [],
                   MockScanOperation.Error = None\<rparr>
   \<and> accepts test_runtime (Ptr model_t (Some 1)) (Ptr model_t (Some 0))
   \<and> fst (MockQueryExecutor_Scan test_runtime 0 (Some select_n) []
            (scan_test\<lparr>idx := 2\<rparr>, test_heap))
       = Inr None
   \<and> snd (snd (MockQueryExecutor_Scan test_runtime 0 (Some select_n) []
                 (scan_test\<lparr>idx := 2\<rparr>, test_heap))) 1
       = Data ''bunoffe.model'' ''{Hello, world! 33}''
   \<and> fst (MockQueryExecutor_Scan test_runtime 0 (Some select_nomodel) []
            (scan_test\<lparr>idx := 2\<rparr>, test_heap))
       = Inl NilDereference"
  using C6_scan_assigns_model[where R = test_runtime and ex = "scan_test\<lparr>idx := 2\<rparr>"
      and op = "\<lparr>MockScanOperation.Model = Ptr model_t (Some 0), MockScanOperation.Args = [],
                   MockScanOperation.Error = None\<rparr>"
      and ctx = 0 and q = "Some select_n" and args = "[]" and h = test_heap]
    C6_scan_assigns_model[where R = test_runtime and ex = "scan_test\<lparr>idx := 2\<rparr>"
      and op = "\<lparr>MockScanOperation.Model = Ptr model_t (Some 0), MockScanOperation.Args = [],
                   MockScanOperation.Error = None\<rparr>"
      and ctx = 0 and q = "Some select_nomodel" and args = "[]" and h = test_heap]
  by (simp add: scan_test_def select_n_def select_nomodel_def mock_defs accepts_def
      model_t_def test_heap_def test_runtime_def assign_ValueOf del: reflect_ValueOf.simps)

theorem C6_counterexample:
  "Ops (scan_test\<lparr>idx := 3\<rparr>) ! idx (scan_test\<lparr>idx := 3\<rparr>)
     = MockScan \<lparr>MockScanOperation.Model = Ptr model_t (Some 0),
                 MockScanOperation.Args = [Data ''string'' ''hadouken'', Data ''float64'' ''3.14''],
                 MockScanOperation.Error = None\<rparr>
   \<and> fst (MockQueryExecutor_Scan test_runtime 0 (Some select_n) []
            (scan_test\<lparr>idx := 3\<rparr>, test_heap))
       = Inl IndexOutOfRange
   \<and> Ops (scan_test\<lparr>idx := 2\<rparr>) ! idx (scan_test\<lparr>idx := 2\<rparr>)
       = MockScan \<lparr>MockScanOperation.Model = Ptr model_t (Some 0), MockScanOperation.Args = [],
                   MockScanOperation.Error = None\<rparr>
   \<and> fst (MockQueryExecutor_Scan test_runtime 0 (Some select_nomodel) []
            (scan_test\<lparr>idx := 2\<rparr>, test_heap))
       = Inl NilDereference"
  by (simp add: scan_test_def select_n_def select_nomodel_def mock_defs model_t_def
      test_runtime_def assign_ValueOf accepts_def del: reflect_ValueOf.simps)

text \<open>
  C7, as the code has it. What \<open>Exists\<close> returns depends only on \<open>Ops\<close> and the cursor.
  What \<open>Exec\<close> and \<open>Scan\<close> return, when they return, depends only on \<open>Ops\<close> and the
  cursor: two calls made from the same executor state that both return, return the same
  values, whatever their contexts, queries, arguments and memories. Whether \<open>Exec\<close> or
  \<open>Scan\<close> returns or panics is not settled by \<open>Ops\<close> and the cursor alone: it depends on
  the query through \<open>q.GetModel().Value()\<close>, and through nothing else, so two calls from
  the same state with the same args and queries of the same \<open>GetModel().Value()\<close> have
  the same outcome and effect, whatever the queries' own \<open>Exec\<close> or \<open>Scan\<close> methods (no
  database is reached) and whatever the contexts; and when the consumed operation has a
  nil \<open>Model\<close> the query is not consulted at all.
\<close>

theorem C7_results_ignore_query_and_context:
  "(fst (MockQueryExecutor_Exec R ctx1 qe1 args1 (ex, h1)) = Inr r1
      \<and> fst (MockQueryExecutor_Exec R ctx2 qe2 args2 (ex, h2)) = Inr r2 \<longrightarrow> r1 = r2)
   \<and> (fst (MockQueryExecutor_Scan R ctx1 qs1 args1 (ex, h1)) = Inr e1
      \<and> fst (MockQueryExecutor_Scan R ctx2 qs2 args2 (ex, h2)) = Inr e2 \<longrightarrow> e1 = e2)
   \<and> fst (MockQueryExecutor_Exists ctx1 qx1 (ex, h1))
      = fst (MockQueryExecutor_Exists ctx2 qx2 (ex, h2))
   \<and> MockQueryExecutor_Exists ctx1 qx1 (ex, h) = MockQueryExecutor_Exists ctx2 qx2 (ex, h)
   \<and> (GetModel_Value qe1 = GetModel_Value qe2 \<longrightarrow>
        MockQueryExecutor_Exec R ctx1 qe1 args (ex, h)
          = MockQueryExecutor_Exec R ctx2 qe2 args (ex, h))
   \<and> (GetModel_Value qs1 = GetModel_Value qs2 \<longrightarrow>
        MockQueryExecutor_Scan R ctx1 qs1 args (ex, h)
          = MockQueryExecutor_Scan R ctx2 qs2 args (ex, h))
   \<and> (idx ex < length (Ops ex) \<and> Ops ex ! idx ex = MockExec op
        \<and> MockExecOperation.Model op = Nil \<longrightarrow>
        MockQueryExecutor_Exec R ctx1 qe1 args (ex, h)
          = MockQueryExecutor_Exec R ctx2 qe2 args (ex, h))
   \<and> (idx ex < length (Ops ex) \<and> Ops ex ! idx ex = MockScan op'
        \<and> MockScanOperation.Model op' = Nil \<longrightarrow>
        MockQueryExecutor_Scan R ctx1 qs1 args (ex, h)
          = MockQueryExecutor_Scan R ctx2 qs2 args (ex, h))"
proof (intro conjI impI)
  assume a: "fst (MockQueryExecutor_Exec R ctx1 qe1 args1 (ex, h1)) = Inr r1
      \<and> fst (MockQueryExecutor_Exec R ctx2 qe2 args2 (ex, h2)) = Inr r2"
  from a Exec_returns[of R ctx1 qe1 args1 ex h1 r1]
  obtain op1 where o1: "Ops ex ! idx ex = MockExec op1"
    "fst (Exec_body R op1 qe1 args1 h1) = Inr r1"
    by blast
  from a Exec_returns[of R ctx2 qe2 args2 ex h2 r2]
  obtain op2 where o2: "Ops ex ! idx ex = MockExec op2"
    "fst (Exec_body R op2 qe2 args2 h2) = Inr r2"
    by blast
  from o1(1) o2(1) have e: "op2 = op1" by simp
  from Exec_body_returns[OF o1(2)] Exec_body_returns[OF o2(2)[unfolded e]]
  show "r1 = r2" by (simp only:)
next
  assume a: "fst (MockQueryExecutor_Scan R ctx1 qs1 args1 (ex, h1)) = Inr e1
      \<and> fst (MockQueryExecutor_Scan R ctx2 qs2 args2 (ex, h2)) = Inr e2"
  from a Scan_returns[of R ctx1 qs1 args1 ex h1 e1]
  obtain op1 where o1: "Ops ex ! idx ex = MockScan op1"
    "fst (Scan_body R op1 qs1 args1 h1) = Inr e1"
    by blast
  from a Scan_returns[of R ctx2 qs2 args2 ex h2 e2]
  obtain op2 where o2: "Ops ex ! idx ex = MockScan op2"
    "fst (Scan_body R op2 qs2 args2 h2) = Inr e2"
    by blast
  from o1(1) o2(1) have e: "op2 = op1" by simp
  from Scan_body_returns[OF o1(2)] Scan_body_returns[OF o2(2)[unfolded e]]
  show "e1 = e2" by (simp only:)
next
  show "fst (MockQueryExecutor_Exists ctx1 qx1 (ex, h1))
      = fst (MockQueryExecutor_Exists ctx2 qx2 (ex, h2))"
    by (simp add: MockQueryExecutor_Exists_def
        split: prod.splits sum.splits MockedQueryOperation.splits option.splits)
  show "MockQueryExecutor_Exists ctx1 qx1 (ex, h) = MockQueryExecutor_Exists ctx2 qx2 (ex, h)"
    by (simp add: MockQueryExecutor_Exists_def)
next
  assume g: "GetModel_Value qe1 = GetModel_Value qe2"
  have e: "Exec_body R o' qe1 a k = Exec_body R o' qe2 a k" for o' a k
    using g by (rule Exec_body_query)
  show "MockQueryExecutor_Exec R ctx1 qe1 args (ex, h)
          = MockQueryExecutor_Exec R ctx2 qe2 args (ex, h)"
    unfolding MockQueryExecutor_Exec_def e by (rule refl)
next
  assume g: "GetModel_Value qs1 = GetModel_Value qs2"
  have e: "Scan_body R o' qs1 a k = Scan_body R o' qs2 a k" for o' a k
    using g by (rule Scan_body_query)
  show "MockQueryExecutor_Scan R ctx1 qs1 args (ex, h)
          = MockQueryExecutor_Scan R ctx2 qs2 args (ex, h)"
    unfolding MockQueryExecutor_Scan_def e by (rule refl)
next
  assume a: "idx ex < length (Ops ex) \<and> Ops ex ! idx ex = MockExec op
        \<and> MockExecOperation.Model op = Nil"
  then have i: "idx ex < length (Ops ex)" and o: "Ops ex ! idx ex = MockExec op"
    and n: "MockExecOperation.Model op = Nil" by simp_all
  have "Exec_body R op qe1 args h = Exec_body R op qe2 args h"
    using n by (simp add: Exec_body_def Exec_model_def split: option.splits)
  then show "MockQueryExecutor_Exec R ctx1 qe1 args (ex, h)
          = MockQueryExecutor_Exec R ctx2 qe2 args (ex, h)"
    using Exec_match[OF i o, of R ctx1 qe1 args h] Exec_match[OF i o, of R ctx2 qe2 args h]
    by simp
next
  assume a: "idx ex < length (Ops ex) \<and> Ops ex ! idx ex = MockScan op'
        \<and> MockScanOperation.Model op' = Nil"
  then have i: "idx ex < length (Ops ex)" and o: "Ops ex ! idx ex = MockScan op'"
    and n: "MockScanOperation.Model op' = Nil" by simp_all
  have "Scan_body R op' qs1 args h = Scan_body R op' qs2 args h"
    using n by (simp add: Scan_body_def Scan_model_def split: option.splits)
  then show "MockQueryExecutor_Scan R ctx1 qs1 args (ex, h)
          = MockQueryExecutor_Scan R ctx2 qs2 args (ex, h)"
    using Scan_match[OF i o, of R ctx1 qs1 args h] Scan_match[OF i o, of R ctx2 qs2 args h]
    by simp
qed

theorem C7_results_ignore_query_and_context_witness:
  "fst (MockQueryExecutor_Exec test_runtime 0 (Some insert_n) []
          (exec_test\<lparr>idx := 2\<rparr>, test_heap))
     = Inr (Some test_result, None)
   \<and> fst (MockQueryExecutor_Exec test_runtime 1 (Some insert_k) []
          (exec_test\<lparr>idx := 2\<rparr>, test_heap))
     = Inr (Some test_result, None)
   \<and> fst (MockQueryExecutor_Scan test_runtime 0 (Some select_n) []
          (scan_test\<lparr>idx := 1\<rparr>, test_heap))
     = Inr (Some ''an error'')
   \<and> fst (MockQueryExecutor_Scan test_runtime 1 None [Nil]
          (scan_test\<lparr>idx := 1\<rparr>, test_heap))
     = Inr (Some ''an error'')
   \<and> GetModel_Value (Some insert_n) = GetModel_Value (Some (insert_n\<lparr>Exec := Exec insert_k\<rparr>))
   \<and> MockQueryExecutor_Exec test_runtime 0 (Some insert_n) []
        (exec_test\<lparr>idx := 2\<rparr>, test_heap)
     = MockQueryExecutor_Exec test_runtime 1 (Some (insert_n\<lparr>Exec := Exec insert_k\<rparr>)) []
        (exec_test\<lparr>idx := 2\<rparr>, test_heap)
   \<and> idx (exec_test\<lparr>idx := 3\<rparr>) < length (Ops (exec_test\<lparr>idx := 3\<rparr>))
   \<and> MockQueryExecutor_Exec test_runtime 0 (Some insert_n)
        [Ptr (TNamed ''string'') (Some 2), Ptr (TNamed ''float64'') (Some 3)]
        (exec_test\<lparr>idx := 3\<rparr>, test_heap)
     = MockQueryExecutor_Exec test_runtime 1 None
        [Ptr (TNamed ''string'') (Some 2), Ptr (TNamed ''float64'') (Some 3)]
        (exec_test\<lparr>idx := 3\<rparr>, test_heap)"
  using C7_results_ignore_query_and_context[where R = test_runtime
      and ex = "exec_test\<lparr>idx := 2\<rparr>"
      and ?ctx1.0 = 0 and ?ctx2.0 = 1 and ?qe1.0 = "Some insert_n" and ?qe2.0 = "Some insert_k"
      and ?args1.0 = "[]" and ?args2.0 = "[]" and ?h1.0 = test_heap and ?h2.0 = test_heap
      and ?r1.0 = "(Some test_result, None)" and ?r2.0 = "(Some test_result, None)"]
    C7_results_ignore_query_and_context[where R = test_runtime
      and ex = "scan_test\<lparr>idx := 1\<rparr>"
      and ?ctx1.0 = 0 and ?ctx2.0 = 1 and ?qs1.0 = "Some select_n" and ?qs2.0 = None
      and ?args1.0 = "[]" and ?args2.0 = "[Nil]" and ?h1.0 = test_heap and ?h2.0 = test_heap
      and ?e1.0 = "Some ''an error''" and ?e2.0 = "Some ''an error''"]
    C7_results_ignore_query_and_context[where R = test_runtime
      and ex = "exec_test\<lparr>idx := 2\<rparr>" and h = test_heap and args = "[]"
      and ?ctx1.0 = 0 and ?ctx2.0 = 1 and ?qe1.0 = "Some insert_n"
      and ?qe2.0 = "Some (insert_n\<lparr>Exec := Exec insert_k\<rparr>)"]
    C7_results_ignore_query_and_context[where R = test_runtime
      and ex = "exec_test\<lparr>idx := 3\<rparr>" and h = test_heap
      and args = "[Ptr (TNamed ''string'') (Some 2), Ptr (TNamed ''float64'') (Some 3)]"
      and op = "\<lparr>MockExecOperation.Model = Nil,
                 MockExecOperation.Args = [Data ''string'' ''hadouken'', Data ''float64'' ''3.14''],
                 Result = None, MockExecOperation.Error = None\<rparr>"
      and ?ctx1.0 = 0 and ?ctx2.0 = 1 and ?qe1.0 = "Some insert_n" and ?qe2.0 = None]
  by (simp add: exec_test_def scan_test_def mock_defs insert_n_def insert_k_def select_n_def
      test_heap_def model_t_def test_runtime_def assign_ValueOf accepts_def
      del: reflect_ValueOf.simps)

theorem C7_counterexample:
  "fst (MockQueryExecutor_Scan test_runtime 0 (Some select_n) []
          (scan_test\<lparr>idx := 2\<rparr>, test_heap))
     = Inr None
   \<and> fst (MockQueryExecutor_Scan test_runtime 0 (Some select_nomodel) []
          (scan_test\<lparr>idx := 2\<rparr>, test_heap))
     = Inl NilDereference
   \<and> fst (MockQueryExecutor_Exec test_runtime 0 (Some insert_n) []
          (exec_test\<lparr>idx := 2\<rparr>, test_heap))
     = Inr (Some test_result, None)
   \<and> fst (MockQueryExecutor_Exec test_runtime 0 (Some (insert_n\<lparr>GetModel := None\<rparr>)) []
          (exec_test\<lparr>idx := 2\<rparr>, test_heap))
     = Inl NilDereference"
  by (simp add: exec_test_def scan_test_def mock_defs insert_n_def select_n_def
      select_nomodel_def test_heap_def model_t_def test_runtime_def assign_ValueOf accepts_def
      del: reflect_ValueOf.simps)

text \<open>
  C8, as the code has it. When \<open>Exec\<close> consumes a \<open>MockExecOperation\<close> with nil \<open>Error\<close>
  and non-empty \<open>Args\<close>, the call panics if \<open>len(op.Args)\<close> differs from \<open>len(args)\<close>
  (with the length message once the model statement has succeeded, leaving the memory as
  that statement left it). When the lengths agree and the model statement has succeeded,
  and every \<open>args[i]\<close> is a non-nil pointer to a variable to whose type what \<open>op.Args[i]\<close>
  holds is assignable, the variable of each \<open>args[i]\<close> is assigned, in the order of \<open>i\<close>,
  what \<open>op.Args[i]\<close> holds, and \<open>(op.Result, nil)\<close> is returned; if some \<open>args[i]\<close> is not
  such a pointer the call panics. \<open>Scan\<close> has no length check: it never raises the length
  panic, assigns in the same way and returns nil whenever \<open>op.Args\<close> is not longer than
  \<open>args\<close> and its first \<open>len(op.Args)\<close> entries are such pointers, and panics when
  \<open>op.Args\<close> is longer than \<open>args\<close>.
\<close>

theorem C8_exec_checks_args_length:
  "(idx ex < length (Ops ex) \<and> Ops ex ! idx ex = MockExec op
      \<and> MockExecOperation.Error op = None \<and> MockExecOperation.Args op \<noteq> []
      \<and> length (MockExecOperation.Args op) \<noteq> length args \<longrightarrow>
        (\<exists>p. fst (MockQueryExecutor_Exec R ctx qe args (ex, h)) = Inl p)
        \<and> (Exec_model R op qe h = Inr h1 \<longrightarrow>
             MockQueryExecutor_Exec R ctx qe args (ex, h)
               = (Inl (ArgsLength ''operation.Args and args should have the same length''),
                  ex\<lparr>idx := idx ex + 1\<rparr>, h1)))
   \<and> (idx ex < length (Ops ex) \<and> Ops ex ! idx ex = MockExec op
      \<and> MockExecOperation.Error op = None \<and> MockExecOperation.Args op \<noteq> []
      \<and> length (MockExecOperation.Args op) = length args
      \<and> Exec_model R op qe h = Inr h1 \<longrightarrow>
        ((\<forall>i<length args. accepts R (args ! i) (MockExecOperation.Args op ! i)) \<longrightarrow>
           MockQueryExecutor_Exec R ctx qe args (ex, h)
             = (Inr (Result op, None), ex\<lparr>idx := idx ex + 1\<rparr>,
                assign_in_order R h1 args (MockExecOperation.Args op)))
        \<and> ((\<exists>i<length args. \<not> accepts R (args ! i) (MockExecOperation.Args op ! i)) \<longrightarrow>
           fst (MockQueryExecutor_Exec R ctx qe args (ex, h)) = Inl ReflectPanic))
   \<and> (\<forall>s. fst (MockQueryExecutor_Scan R ctx qs args (ex, h)) \<noteq> Inl (ArgsLength s))
   \<and> (idx ex < length (Ops ex) \<and> Ops ex ! idx ex = MockScan op'
      \<and> MockScanOperation.Error op' = None \<and> Scan_model R op' qs h = Inr h1 \<longrightarrow>
        (length (MockScanOperation.Args op') \<le> length args
           \<and> (\<forall>i<length (MockScanOperation.Args op').
                 accepts R (args ! i) (MockScanOperation.Args op' ! i)) \<longrightarrow>
           MockQueryExecutor_Scan R ctx qs args (ex, h)
             = (Inr None, ex\<lparr>idx := idx ex + 1\<rparr>,
                assign_in_order R h1 args (MockScanOperation.Args op')))
        \<and> (length args < length (MockScanOperation.Args op') \<longrightarrow>
           fst (MockQueryExecutor_Scan R ctx qs args (ex, h)) = Inl IndexOutOfRange
           \<or> fst (MockQueryExecutor_Scan R ctx qs args (ex, h)) = Inl ReflectPanic))"
proof (intro conjI)
  show "idx ex < length (Ops ex) \<and> Ops ex ! idx ex = MockExec op
      \<and> MockExecOperation.Error op = None \<and> MockExecOperation.Args op \<noteq> []
      \<and> length (MockExecOperation.Args op) \<noteq> length args \<longrightarrow>
        (\<exists>p. fst (MockQueryExecutor_Exec R ctx qe args (ex, h)) = Inl p)
        \<and> (Exec_model R op qe h = Inr h1 \<longrightarrow>
             MockQueryExecutor_Exec R ctx qe args (ex, h)
               = (Inl (ArgsLength ''operation.Args and args should have the same length''),
                  ex\<lparr>idx := idx ex + 1\<rparr>, h1))"
  proof (intro impI)
    assume A: "idx ex < length (Ops ex) \<and> Ops ex ! idx ex = MockExec op
      \<and> MockExecOperation.Error op = None \<and> MockExecOperation.Args op \<noteq> []
      \<and> length (MockExecOperation.Args op) \<noteq> length args"
    then have i: "idx ex < length (Ops ex)" and o: "Ops ex ! idx ex = MockExec op" by simp_all
    note m = Exec_match[OF i o, of R ctx qe args h]
    from A have c: "length (MockExecOperation.Args op) > 0
        \<and> length (MockExecOperation.Args op) \<noteq> length args" by simp
    from A c show "(\<exists>p. fst (MockQueryExecutor_Exec R ctx qe args (ex, h)) = Inl p)
        \<and> (Exec_model R op qe h = Inr h1 \<longrightarrow>
             MockQueryExecutor_Exec R ctx qe args (ex, h)
               = (Inl (ArgsLength ''operation.Args and args should have the same length''),
                  ex\<lparr>idx := idx ex + 1\<rparr>, h1))"
      unfolding m by (cases "Exec_model R op qe h") (simp_all add: Exec_body_def)
  qed
next
  show "idx ex < length (Ops ex) \<and> Ops ex ! idx ex = MockExec op
      \<and> MockExecOperation.Error op = None \<and> MockExecOperation.Args op \<noteq> []
      \<and> length (MockExecOperation.Args op) = length args
      \<and> Exec_model R op qe h = Inr h1 \<longrightarrow>
        ((\<forall>i<length args. accepts R (args ! i) (MockExecOperation.Args op ! i)) \<longrightarrow>
           MockQueryExecutor_Exec R ctx qe args (ex, h)
             = (Inr (Result op, None), ex\<lparr>idx := idx ex + 1\<rparr>,
                assign_in_order R h1 args (MockExecOperation.Args op)))
        \<and> ((\<exists>i<length args. \<not> accepts R (args ! i) (MockExecOperation.Args op ! i)) \<longrightarrow>
           fst (MockQueryExecutor_Exec R ctx qe args (ex, h)) = Inl ReflectPanic)"
  proof (intro impI)
    let ?vs = "MockExecOperation.Args op"
    assume A: "idx ex < length (Ops ex) \<and> Ops ex ! idx ex = MockExec op
      \<and> MockExecOperation.Error op = None \<and> ?vs \<noteq> []
      \<and> length ?vs = length args \<and> Exec_model R op qe h = Inr h1"
    then have i: "idx ex < length (Ops ex)" and o: "Ops ex ! idx ex = MockExec op"
      and e: "MockExecOperation.Error op = None" and l: "length ?vs = length args"
      and s: "Exec_model R op qe h = Inr h1" by simp_all
    note m = Exec_match[OF i o, of R ctx qe args h]
    have body: "Exec_body R op qe args h =
        (case assignArgs R h1 args 0 ?vs of
           (Some p, h2) \<Rightarrow> (Inl p, h2) | (None, h2) \<Rightarrow> (Inr (Result op, None), h2))"
      using e s l by (simp add: Exec_body_def)
    have 1: "MockQueryExecutor_Exec R ctx qe args (ex, h)
             = (Inr (Result op, None), ex\<lparr>idx := idx ex + 1\<rparr>, assign_in_order R h1 args ?vs)"
      if acc: "\<forall>i<length args. accepts R (args ! i) (?vs ! i)"
    proof -
      from acc l have "assignArgs R h1 args 0 ?vs = (None, assign_in_order R h1 (drop 0 args) ?vs)"
        by (intro assignArgs_accepted) simp_all
      then show ?thesis unfolding m body by simp
    qed
    have 2: "fst (MockQueryExecutor_Exec R ctx qe args (ex, h)) = Inl ReflectPanic"
      if "\<exists>i<length args. \<not> accepts R (args ! i) (?vs ! i)"
    proof -
      from that l obtain j where "j < length ?vs" and "\<not> accepts R (args ! (0 + j)) (?vs ! j)"
        by auto
      moreover have "0 + length ?vs \<le> length args" using l by simp
      ultimately have "fst (assignArgs R h1 args 0 ?vs) = Some ReflectPanic"
        by (intro assignArgs_reject)
      then show ?thesis unfolding m body by (auto split: prod.splits)
    qed
    from 1 2 show "((\<forall>i<length args. accepts R (args ! i) (?vs ! i)) \<longrightarrow>
           MockQueryExecutor_Exec R ctx qe args (ex, h)
             = (Inr (Result op, None), ex\<lparr>idx := idx ex + 1\<rparr>, assign_in_order R h1 args ?vs))
        \<and> ((\<exists>i<length args. \<not> accepts R (args ! i) (?vs ! i)) \<longrightarrow>
           fst (MockQueryExecutor_Exec R ctx qe args (ex, h)) = Inl ReflectPanic)"
      by blast
  qed
next
  show "\<forall>s. fst (MockQueryExecutor_Scan R ctx qs args (ex, h)) \<noteq> Inl (ArgsLength s)"
  proof (intro allI notI)
    fix s
    assume f: "fst (MockQueryExecutor_Scan R ctx qs args (ex, h)) = Inl (ArgsLength s)"
    show False
    proof (cases "idx ex < length (Ops ex)")
      case False
      then show False using f Scan_exhausted[of ex R ctx qs args h] by simp
    next
      case True
      show False
      proof (cases "\<forall>op. Ops ex ! idx ex \<noteq> MockScan op")
        case T: True
        from Scan_mismatch[OF True T, of R ctx qs args h] f show False by simp
      next
        case False
        then obtain o' where o': "Ops ex ! idx ex = MockScan o'" by blast
        from Scan_match[OF True o', of R ctx qs args h] f
        have b: "fst (Scan_body R o' qs args h) = Inl (ArgsLength s)" by simp
        then show False
          using Scan_model_panic[of R o' qs h "ArgsLength s"]
            assignArgs_panic[of R _ args 0 "MockScanOperation.Args o'" "ArgsLength s"]
          by (auto simp: Scan_body_result split: option.splits sum.splits)
      qed
    qed
  qed
next
  show "idx ex < length (Ops ex) \<and> Ops ex ! idx ex = MockScan op'
      \<and> MockScanOperation.Error op' = None \<and> Scan_model R op' qs h = Inr h1 \<longrightarrow>
        (length (MockScanOperation.Args op') \<le> length args
           \<and> (\<forall>i<length (MockScanOperation.Args op').
                 accepts R (args ! i) (MockScanOperation.Args op' ! i)) \<longrightarrow>
           MockQueryExecutor_Scan R ctx qs args (ex, h)
             = (Inr None, ex\<lparr>idx := idx ex + 1\<rparr>,
                assign_in_order R h1 args (MockScanOperation.Args op')))
        \<and> (length args < length (MockScanOperation.Args op') \<longrightarrow>
           fst (MockQueryExecutor_Scan R ctx qs args (ex, h)) = Inl IndexOutOfRange
           \<or> fst (MockQueryExecutor_Scan R ctx qs args (ex, h)) = Inl ReflectPanic)"
  proof (intro impI)
    let ?vs = "MockScanOperation.Args op'"
    assume A: "idx ex < length (Ops ex) \<and> Ops ex ! idx ex = MockScan op'
      \<and> MockScanOperation.Error op' = None \<and> Scan_model R op' qs h = Inr h1"
    then have i: "idx ex < length (Ops ex)" and o: "Ops ex ! idx ex = MockScan op'"
      and e: "MockScanOperation.Error op' = None"
      and s: "Scan_model R op' qs h = Inr h1" by simp_all
    note m = Scan_match[OF i o, of R ctx qs args h]
    have body: "Scan_body R op' qs args h =
        (case assignArgs R h1 args 0 ?vs of
           (Some p, h2) \<Rightarrow> (Inl p, h2) | (None, h2) \<Rightarrow> (Inr None, h2))"
      using e s by (simp add: Scan_body_def)
    have 1: "MockQueryExecutor_Scan R ctx qs args (ex, h)
             = (Inr None, ex\<lparr>idx := idx ex + 1\<rparr>, assign_in_order R h1 args ?vs)"
      if "length ?vs \<le> length args \<and> (\<forall>i<length ?vs. accepts R (args ! i) (?vs ! i))"
    proof -
      from that have "assignArgs R h1 args 0 ?vs = (None, assign_in_order R h1 (drop 0 args) ?vs)"
        by (intro assignArgs_accepted) simp_all
      then show ?thesis unfolding m body by simp
    qed
    have 3: "fst (MockQueryExecutor_Scan R ctx qs args (ex, h)) = Inl IndexOutOfRange
           \<or> fst (MockQueryExecutor_Scan R ctx qs args (ex, h)) = Inl ReflectPanic"
      if "length args < length ?vs"
    proof -
      from that have "fst (assignArgs R h1 args 0 ?vs) \<noteq> None"
        by (intro assignArgs_overrun) simp_all
      then obtain p where p: "fst (assignArgs R h1 args 0 ?vs) = Some p" by auto
      from assignArgs_panic[OF p] p show ?thesis
        unfolding m body by (auto split: prod.splits)
    qed
    from 1 3 show "(length ?vs \<le> length args
           \<and> (\<forall>i<length ?vs. accepts R (args ! i) (?vs ! i)) \<longrightarrow>
           MockQueryExecutor_Scan R ctx qs args (ex, h)
             = (Inr None, ex\<lparr>idx := idx ex + 1\<rparr>, assign_in_order R h1 args ?vs))
        \<and> (length args < length ?vs \<longrightarrow>
           fst (MockQueryExecutor_Scan R ctx qs args (ex, h)) = Inl IndexOutOfRange
           \<or> fst (MockQueryExecutor_Scan R ctx qs args (ex, h)) = Inl ReflectPanic)"
      by blast
  qed
qed

theorem C8_exec_checks_args_length_witness:
  "fst (MockQueryExecutor_Exec test_runtime 0 (Some insert_n) []
          (exec_test\<lparr>idx := 3\<rparr>, test_heap))
     = Inl (ArgsLength ''operation.Args and args should have the same length'')
   \<and> accepts test_runtime (Ptr (TNamed ''string'') (Some 2)) (Data ''string'' ''hadouken'')
   \<and> accepts test_runtime (Ptr (TNamed ''float64'') (Some 3)) (Data ''float64'' ''3.14'')
   \<and> fst (MockQueryExecutor_Exec test_runtime 0 (Some insert_n)
            [Ptr (TNamed ''string'') (Some 2), Ptr (TNamed ''float64'') (Some 3)]
            (exec_test\<lparr>idx := 3\<rparr>, test_heap))
     = Inr (None, None)
   \<and> snd (snd (MockQueryExecutor_Exec test_runtime 0 (Some insert_n)
            [Ptr (TNamed ''string'') (Some 2), Ptr (TNamed ''float64'') (Some 3)]
            (exec_test\<lparr>idx := 3\<rparr>, test_heap))) 2
     = Data ''string'' ''hadouken''
   \<and> snd (snd (MockQueryExecutor_Exec test_runtime 0 (Some insert_n)
            [Ptr (TNamed ''string'') (Some 2), Ptr (TNamed ''float64'') (Some 3)]
            (exec_test\<lparr>idx := 3\<rparr>, test_heap))) 3
     = Data ''float64'' ''3.14''
   \<and> \<not> accepts test_runtime (Ptr (TNamed ''float64'') (Some 3)) (Data ''string'' ''hadouken'')
   \<and> fst (MockQueryExecutor_Exec test_runtime 0 (Some insert_n)
            [Ptr (TNamed ''float64'') (Some 3), Ptr (TNamed ''string'') (Some 2)]
            (exec_test\<lparr>idx := 3\<rparr>, test_heap))
     = Inl ReflectPanic
   \<and> fst (MockQueryExecutor_Scan test_runtime 0 (Some select_n)
            [Ptr (TNamed ''string'') (Some 2), Ptr (TNamed ''float64'') (Some 3),
             Ptr model_t (Some 4)]
            (scan_test\<lparr>idx := 3\<rparr>, test_heap))
     = Inr None
   \<and> fst (MockQueryExecutor_Scan test_runtime 0 (Some select_n) []
            (scan_test\<lparr>idx := 3\<rparr>, test_heap))
     = Inl IndexOutOfRange"
  using C8_exec_checks_args_length[where R = test_runtime and ex = "exec_test\<lparr>idx := 3\<rparr>"
      and op = "\<lparr>MockExecOperation.Model = Nil,
                 MockExecOperation.Args = [Data ''string'' ''hadouken'', Data ''float64'' ''3.14''],
                 Result = None, MockExecOperation.Error = None\<rparr>"
      and ctx = 0 and qe = "Some insert_n" and args = "[]" and h = test_heap
      and ?h1.0 = test_heap]
    C8_exec_checks_args_length[where R = test_runtime and ex = "exec_test\<lparr>idx := 3\<rparr>"
      and op = "\<lparr>MockExecOperation.Model = Nil,
                 MockExecOperation.Args = [Data ''string'' ''hadouken'', Data ''float64'' ''3.14''],
                 Result = None, MockExecOperation.Error = None\<rparr>"
      and ctx = 0 and qe = "Some insert_n"
      and args = "[Ptr (TNamed ''string'') (Some 2), Ptr (TNamed ''float64'') (Some 3)]"
      and h = test_heap and ?h1.0 = test_heap]
    C8_exec_checks_args_length[where R = test_runtime and ex = "exec_test\<lparr>idx := 3\<rparr>"
      and op = "\<lparr>MockExecOperation.Model = Nil,
                 MockExecOperation.Args = [Data ''string'' ''hadouken'', Data ''float64'' ''3.14''],
                 Result = None, MockExecOperation.Error = None\<rparr>"
      and ctx = 0 and qe = "Some insert_n"
      and args = "[Ptr (TNamed ''float64'') (Some 3), Ptr (TNamed ''string'') (Some 2)]"
      and h = test_heap and ?h1.0 = test_heap]
    C8_exec_checks_args_length[where R = test_runtime and ex = "scan_test\<lparr>idx := 3\<rparr>"
      and op' = "\<lparr>MockScanOperation.Model = Ptr model_t (Some 0),
                 MockScanOperation.Args = [Data ''string'' ''hadouken'', Data ''float64'' ''3.14''],
                 MockScanOperation.Error = None\<rparr>"
      and ctx = 0 and qs = "Some select_n"
      and args = "[Ptr (TNamed ''string'') (Some 2), Ptr (TNamed ''float64'') (Some 3),
                   Ptr model_t (Some 4)]"
      and h = test_heap
      and ?h1.0 = "test_heap(1 := Data ''bunoffe.model'' ''{Hello, world! 33}'')"]
    C8_exec_checks_args_length[where R = test_runtime and ex = "scan_test\<lparr>idx := 3\<rparr>"
      and op' = "\<lparr>MockScanOperation.Model = Ptr model_t (Some 0),
                 MockScanOperation.Args = [Data ''string'' ''hadouken'', Data ''float64'' ''3.14''],
                 MockScanOperation.Error = None\<rparr>"
      and ctx = 0 and qs = "Some select_n" and args = "[]" and h = test_heap
      and ?h1.0 = "test_heap(1 := Data ''bunoffe.model'' ''{Hello, world! 33}'')"]
  by (simp add: exec_test_def scan_test_def insert_n_def select_n_def
      accepts_def model_t_def test_heap_def test_runtime_def mock_defs assign_ValueOf
      del: reflect_ValueOf.simps)

theorem C8_counterexample:
  "Ops (exec_test\<lparr>idx := 3\<rparr>) ! idx (exec_test\<lparr>idx := 3\<rparr>)
     = MockExec \<lparr>MockExecOperation.Model = Nil,
                 MockExecOperation.Args = [Data ''string'' ''hadouken'', Data ''float64'' ''3.14''],
                 Result = None, MockExecOperation.Error = None\<rparr>
   \<and> length [Data ''string'' ''hadouken'', Data ''float64'' ''3.14'']
       = length [Data ''string'' [], Data ''float64'' ''0'']
   \<and> fst (MockQueryExecutor_Exec test_runtime 0 (Some insert_n)
            [Data ''string'' [], Data ''float64'' ''0'']
            (exec_test\<lparr>idx := 3\<rparr>, test_heap))
       = Inl ReflectPanic
   \<and> length [Data ''string'' ''hadouken'', Data ''float64'' ''3.14'']
       = length [Ptr (TNamed ''float64'') (Some 3), Ptr (TNamed ''string'') (Some 2)]
   \<and> MockQueryExecutor_Exec test_runtime 0 (Some insert_n)
         [Ptr (TNamed ''float64'') (Some 3), Ptr (TNamed ''string'') (Some 2)]
         (exec_test\<lparr>idx := 3\<rparr>, test_heap)
       = (Inl ReflectPanic, exec_test\<lparr>idx := 4\<rparr>, test_heap)"
  by (simp add: exec_test_def insert_n_def mock_defs assign_ValueOf accepts_def
      test_runtime_def del: reflect_ValueOf.simps)

text \<open>
  C9. When the consumed operation's \<open>Error\<close> field is not nil, the call changes nothing
  in the heap (neither the query's model nor any variable the caller's args point to),
  and the cursor has advanced by one. This holds for the three methods, whether the
  operation has the invoked method's type or not.
\<close>

theorem C9_error_branch_assigns_nothing:
  assumes "idx ex < length (Ops ex)" and "op_Error (Ops ex ! idx ex) \<noteq> None"
  shows "snd (MockQueryExecutor_Exec R ctx qe args (ex, h)) = (ex\<lparr>idx := idx ex + 1\<rparr>, h)
       \<and> snd (MockQueryExecutor_Scan R ctx qs args (ex, h)) = (ex\<lparr>idx := idx ex + 1\<rparr>, h)
       \<and> snd (MockQueryExecutor_Exists ctx qx (ex, h)) = (ex\<lparr>idx := idx ex + 1\<rparr>, h)"
proof (intro conjI)
  show "snd (MockQueryExecutor_Exec R ctx qe args (ex, h)) = (ex\<lparr>idx := idx ex + 1\<rparr>, h)"
  proof (cases "\<forall>op. Ops ex ! idx ex \<noteq> MockExec op")
    case True
    from Exec_mismatch[OF assms(1) True, of R ctx qe args h] show ?thesis by simp
  next
    case False
    then obtain op where op: "Ops ex ! idx ex = MockExec op" by blast
    with assms(2) obtain e where "MockExecOperation.Error op = Some e" by auto
    then show ?thesis
      using Exec_match[OF assms(1) op, of R ctx qe args h] by (simp add: Exec_body_def)
  qed
  show "snd (MockQueryExecutor_Scan R ctx qs args (ex, h)) = (ex\<lparr>idx := idx ex + 1\<rparr>, h)"
  proof (cases "\<forall>op. Ops ex ! idx ex \<noteq> MockScan op")
    case True
    from Scan_mismatch[OF assms(1) True, of R ctx qs args h] show ?thesis by simp
  next
    case False
    then obtain op where op: "Ops ex ! idx ex = MockScan op" by blast
    with assms(2) obtain e where "MockScanOperation.Error op = Some e" by auto
    then show ?thesis
      using Scan_match[OF assms(1) op, of R ctx qs args h] by (simp add: Scan_body_def)
  qed
  show "snd (MockQueryExecutor_Exists ctx qx (ex, h)) = (ex\<lparr>idx := idx ex + 1\<rparr>, h)"
  proof (cases "\<forall>op. Ops ex ! idx ex \<noteq> MockExists op")
    case True
    from Exists_mismatch[OF assms(1) True, of ctx qx h] show ?thesis by simp
  next
    case False
    then obtain op where op: "Ops ex ! idx ex = MockExists op" by blast
    with assms(2) obtain e where "MockExistsOperation.Error op = Some e" by auto
    then show ?thesis
      using Exists_match[OF assms(1) op, of ctx qx h] by simp
  qed
qed

theorem C9_error_branch_assigns_nothing_witness:
  "idx (scan_test\<lparr>idx := 1\<rparr>) < length (Ops (scan_test\<lparr>idx := 1\<rparr>))
   \<and> op_Error (Ops (scan_test\<lparr>idx := 1\<rparr>) ! idx (scan_test\<lparr>idx := 1\<rparr>)) \<noteq> None
   \<and> snd (MockQueryExecutor_Exec test_runtime 0 (Some insert_n) [Ptr (TNamed ''string'') (Some 2)]
            (scan_test\<lparr>idx := 1\<rparr>, test_heap)) = (scan_test\<lparr>idx := 2\<rparr>, test_heap)
   \<and> snd (MockQueryExecutor_Scan test_runtime 0 (Some select_n) [Ptr (TNamed ''string'') (Some 2)]
            (scan_test\<lparr>idx := 1\<rparr>, test_heap)) = (scan_test\<lparr>idx := 2\<rparr>, test_heap)
   \<and> snd (MockQueryExecutor_Exists 0 (Some exists_n)
            (scan_test\<lparr>idx := 1\<rparr>, test_heap)) = (scan_test\<lparr>idx := 2\<rparr>, test_heap)"
  using C9_error_branch_assigns_nothing[where R = test_runtime and ex = "scan_test\<lparr>idx := 1\<rparr>" and ctx = "0"
      and qe = "Some insert_n" and args = "[Ptr (TNamed ''string'') (Some 2)]" and h = test_heap
      and qs = "Some select_n" and qx = "Some exists_n"]
  by (simp add: scan_test_def)

text \<open>
  C10, as the code has it. \<open>Exec\<close> copies in the direction opposite to \<open>Scan\<close>'s, and
  only into a pointer. When \<open>Exec\<close> consumes a \<open>MockExecOperation\<close> with nil \<open>Error\<close>
  whose \<open>Model\<close> is a non-nil pointer to a variable to whose type what the query's model
  value holds is assignable, what the query's model value holds (the current value of
  the variable it points to) is assigned to the variable \<open>op.Model\<close> points to. When
  \<open>Scan\<close> consumes a \<open>MockScanOperation\<close> with nil \<open>Error\<close> and non-nil \<open>Model\<close> and the
  query's model value is a non-nil pointer to a variable that accepts what \<open>op.Model\<close>
  holds, what \<open>op.Model\<close> holds is assigned to the variable the query's model value
  points to. In both methods the length check (in \<open>Exec\<close>) and the assignments of
  \<open>op.Args\<close> follow on the memory so changed. A non-nil \<open>Model\<close> that is not a non-nil
  pointer makes \<open>Exec\<close> panic and assign nothing.
\<close>

theorem C10_exec_copies_query_model_into_op:
  "(idx ex < length (Ops ex) \<and> Ops ex ! idx ex = MockExec op
      \<and> MockExecOperation.Error op = None
      \<and> MockExecOperation.Model op = Ptr t (Some a)
      \<and> GetModel_Value qe = Inr m \<and> accepts R (MockExecOperation.Model op) m \<longrightarrow>
        Exec_model R op qe h = Inr (store R h a t (value_of R h m))
        \<and> snd (snd (MockQueryExecutor_Exec R ctx qe args (ex, h)))
            = (if 0 < length (MockExecOperation.Args op)
                  \<and> length (MockExecOperation.Args op) \<noteq> length args
               then store R h a t (value_of R h m)
               else snd (assignArgs R (store R h a t (value_of R h m)) args 0
                           (MockExecOperation.Args op)))
        \<and> (MockExecOperation.Args op = [] \<longrightarrow>
             MockQueryExecutor_Exec R ctx qe args (ex, h)
               = (Inr (Result op, None), ex\<lparr>idx := idx ex + 1\<rparr>,
                  store R h a t (value_of R h m))))
   \<and> (idx ex < length (Ops ex) \<and> Ops ex ! idx ex = MockScan op'
      \<and> MockScanOperation.Error op' = None
      \<and> MockScanOperation.Model op' \<noteq> Nil
      \<and> GetModel_Value qs = Inr (Ptr t' (Some a'))
      \<and> accepts R (Ptr t' (Some a')) (MockScanOperation.Model op') \<longrightarrow>
        Scan_model R op' qs h
          = Inr (store R h a' t' (value_of R h (MockScanOperation.Model op')))
        \<and> snd (snd (MockQueryExecutor_Scan R ctx qs args (ex, h)))
            = snd (assignArgs R (store R h a' t' (value_of R h (MockScanOperation.Model op')))
                     args 0 (MockScanOperation.Args op'))
        \<and> (MockScanOperation.Args op' = [] \<longrightarrow>
             MockQueryExecutor_Scan R ctx qs args (ex, h)
               = (Inr None, ex\<lparr>idx := idx ex + 1\<rparr>,
                  store R h a' t' (value_of R h (MockScanOperation.Model op')))))
   \<and> (idx ex < length (Ops ex) \<and> Ops ex ! idx ex = MockExec op
      \<and> MockExecOperation.Error op = None
      \<and> MockExecOperation.Model op \<noteq> Nil
      \<and> (\<forall>u b. MockExecOperation.Model op \<noteq> Ptr u (Some b)) \<longrightarrow>
        (fst (MockQueryExecutor_Exec R ctx qe args (ex, h)) = Inl ReflectPanic
           \<or> fst (MockQueryExecutor_Exec R ctx qe args (ex, h)) = Inl NilDereference)
        \<and> snd (snd (MockQueryExecutor_Exec R ctx qe args (ex, h))) = h)"
proof (intro conjI impI)
  assume A: "idx ex < length (Ops ex) \<and> Ops ex ! idx ex = MockExec op
      \<and> MockExecOperation.Error op = None
      \<and> MockExecOperation.Model op = Ptr t (Some a)
      \<and> GetModel_Value qe = Inr m \<and> accepts R (MockExecOperation.Model op) m"
  then have i: "idx ex < length (Ops ex)" and o: "Ops ex ! idx ex = MockExec op"
    and e: "MockExecOperation.Error op = None" by simp_all
  from A have nn: "MockExecOperation.Model op \<noteq> Nil" by auto
  let ?h1 = "store R h a t (value_of R h m)"
  from A show s: "Exec_model R op qe h = Inr ?h1"
    using Exec_model_Inr[OF nn, of R qe h ?h1] by blast
  note mt = Exec_match[OF i o, of R ctx qe args h]
  show hp: "snd (snd (MockQueryExecutor_Exec R ctx qe args (ex, h)))
            = (if 0 < length (MockExecOperation.Args op)
                  \<and> length (MockExecOperation.Args op) \<noteq> length args
               then ?h1
               else snd (assignArgs R ?h1 args 0 (MockExecOperation.Args op)))"
    unfolding mt by (simp add: Exec_body_heap e s)
  {
    assume n: "MockExecOperation.Args op = []"
    show "MockQueryExecutor_Exec R ctx qe args (ex, h)
               = (Inr (Result op, None), ex\<lparr>idx := idx ex + 1\<rparr>, ?h1)"
      unfolding mt by (simp add: Exec_body_def e s n)
  }
next
  assume A: "idx ex < length (Ops ex) \<and> Ops ex ! idx ex = MockScan op'
      \<and> MockScanOperation.Error op' = None
      \<and> MockScanOperation.Model op' \<noteq> Nil
      \<and> GetModel_Value qs = Inr (Ptr t' (Some a'))
      \<and> accepts R (Ptr t' (Some a')) (MockScanOperation.Model op')"
  then have i: "idx ex < length (Ops ex)" and o: "Ops ex ! idx ex = MockScan op'"
    and e: "MockScanOperation.Error op' = None"
    and nn: "MockScanOperation.Model op' \<noteq> Nil" by simp_all
  let ?h1 = "store R h a' t' (value_of R h (MockScanOperation.Model op'))"
  from A show s: "Scan_model R op' qs h = Inr ?h1"
    using Scan_model_Inr[OF nn, of R qs h ?h1] by blast
  note mt = Scan_match[OF i o, of R ctx qs args h]
  show "snd (snd (MockQueryExecutor_Scan R ctx qs args (ex, h)))
            = snd (assignArgs R ?h1 args 0 (MockScanOperation.Args op'))"
    unfolding mt by (simp add: Scan_body_heap e s)
  {
    assume n: "MockScanOperation.Args op' = []"
    show "MockQueryExecutor_Scan R ctx qs args (ex, h)
               = (Inr None, ex\<lparr>idx := idx ex + 1\<rparr>, ?h1)"
      unfolding mt by (simp add: Scan_body_def e s n)
  }
next
  assume A: "idx ex < length (Ops ex) \<and> Ops ex ! idx ex = MockExec op
      \<and> MockExecOperation.Error op = None
      \<and> MockExecOperation.Model op \<noteq> Nil
      \<and> (\<forall>u b. MockExecOperation.Model op \<noteq> Ptr u (Some b))"
  then have i: "idx ex < length (Ops ex)" and o: "Ops ex ! idx ex = MockExec op"
    and e: "MockExecOperation.Error op = None"
    and nn: "MockExecOperation.Model op \<noteq> Nil" by simp_all
  from A have "\<And>h1. Exec_model R op qe h \<noteq> Inr h1"
    using Exec_model_Inr[OF nn, of R qe h] by blast
  then obtain p where p: "Exec_model R op qe h = Inl p" by (cases "Exec_model R op qe h") auto
  from Exec_model_panic[OF p] have pp: "p = NilDereference \<or> p = ReflectPanic" .
  have r: "MockQueryExecutor_Exec R ctx qe args (ex, h) = (Inl p, ex\<lparr>idx := idx ex + 1\<rparr>, h)"
    using Exec_match[OF i o, of R ctx qe args h] e p
    by (simp add: Exec_body_def)
  from r pp show "fst (MockQueryExecutor_Exec R ctx qe args (ex, h)) = Inl ReflectPanic
           \<or> fst (MockQueryExecutor_Exec R ctx qe args (ex, h)) = Inl NilDereference"
    by auto
  from r show "snd (snd (MockQueryExecutor_Exec R ctx qe args (ex, h))) = h" by simp
qed

theorem C10_exec_copies_query_model_into_op_witness:
  "accepts test_runtime (Ptr model_t (Some 0)) (Ptr model_t (Some 1))
   \<and> snd (snd (MockQueryExecutor_Exec test_runtime 0 (Some insert_n) []
                 (exec_test\<lparr>idx := 2\<rparr>, test_heap))) 0
     = Data ''bunoffe.model'' ''{ 0}''
   \<and> accepts test_runtime (Ptr model_t (Some 1)) (Ptr model_t (Some 0))
   \<and> snd (snd (MockQueryExecutor_Scan test_runtime 0 (Some select_n) []
                 (scan_test\<lparr>idx := 2\<rparr>, test_heap))) 1
     = Data ''bunoffe.model'' ''{Hello, world! 33}''
   \<and> fst (MockQueryExecutor_Exec test_runtime 0 (Some insert_n) [] (by_value_test, test_heap))
     = Inl ReflectPanic
   \<and> snd (snd (MockQueryExecutor_Exec test_runtime 0 (Some insert_n) []
                 (by_value_test, test_heap)))
     = test_heap"
  using C10_exec_copies_query_model_into_op[where R = test_runtime
      and ex = "exec_test\<lparr>idx := 2\<rparr>"
      and op = "\<lparr>MockExecOperation.Model = Ptr model_t (Some 0), MockExecOperation.Args = [],
                   Result = Some test_result, MockExecOperation.Error = None\<rparr>"
      and t = model_t and a = 0 and qe = "Some insert_n" and m = "Ptr model_t (Some 1)"
      and args = "[]" and ctx = 0 and h = test_heap]
    C10_exec_copies_query_model_into_op[where R = test_runtime
      and ex = "scan_test\<lparr>idx := 2\<rparr>"
      and op' = "\<lparr>MockScanOperation.Model = Ptr model_t (Some 0), MockScanOperation.Args = [],
                   MockScanOperation.Error = None\<rparr>"
      and t' = model_t and a' = 1 and qs = "Some select_n"
      and args = "[]" and ctx = 0 and h = test_heap]
    C10_exec_copies_query_model_into_op[where R = test_runtime and ex = by_value_test
      and op = "\<lparr>MockExecOperation.Model = Data ''bunoffe.model'' ''{Hello, world! 33}'',
                   MockExecOperation.Args = [], Result = None,
                   MockExecOperation.Error = None\<rparr>"
      and qe = "Some insert_n" and args = "[]" and ctx = 0 and h = test_heap]
  by (simp add: exec_test_def scan_test_def by_value_test_def insert_n_def select_n_def
      accepts_def model_t_def test_heap_def test_runtime_def mock_defs assign_ValueOf
      del: reflect_ValueOf.simps)

theorem C10_counterexample:
  "Ops by_value_test ! idx by_value_test
     = MockExec \<lparr>MockExecOperation.Model = Data ''bunoffe.model'' ''{Hello, world! 33}'',
                 MockExecOperation.Args = [], Result = None,
                 MockExecOperation.Error = None\<rparr>
   \<and> GetModel_Value (Some insert_n) = Inr (Ptr model_t (Some 1))
   \<and> fst (MockQueryExecutor_Exec test_runtime 0 (Some insert_n) [] (by_value_test, test_heap))
       = Inl ReflectPanic
   \<and> snd (snd (MockQueryExecutor_Exec test_runtime 0 (Some insert_n) []
                 (by_value_test, test_heap)))
       = test_heap"
  by (simp add: by_value_test_def insert_n_def mock_defs assign_ValueOf accepts_def
      test_runtime_def del: reflect_ValueOf.simps)

end
